theory Spec2Isabelle
  imports Complex_Main "HOL-Library.AList"
begin

section \<open>JavaScript numbers\<close>

text \<open>
  Every \<^verbatim>\<open>number\<close> of the TypeScript source is a \<open>jsnum\<close>: a finite value, one of
  the two infinities, or NaN. The special values arise the way they do in JavaScript:
  \<open>0/0\<close> and \<open>\<infinity> - \<infinity>\<close> are NaN, NaN is contagious in arithmetic and every comparison
  with NaN is false. A sum, product or quotient of finite values overflows to an infinity
  when its magnitude reaches \<open>2\<^sup>1\<^sup>0\<^sup>2\<^sup>4 - 2\<^sup>9\<^sup>7\<^sup>0\<close>, where rounding to the nearest double
  does; below that it is kept as the exact real. Rounding and underflow are outside the
  model, and so is the sign of zero (a division of a non-zero value by zero takes the sign
  of the dividend).
\<close>

datatype jsnum = Fin real | PInf | NInf | NaN

definition overflowAt :: real where
  "overflowAt = 2 ^ 1024 - 2 ^ 970"

definition fin :: "real \<Rightarrow> jsnum" where
  "fin r = (if overflowAt \<le> r then PInf else if r \<le> - overflowAt then NInf else Fin r)"

fun isFin :: "jsnum \<Rightarrow> bool" where
  "isFin (Fin a) = True"
| "isFin PInf = False"
| "isFin NInf = False"
| "isFin NaN = False"

fun jneg :: "jsnum \<Rightarrow> jsnum" where
  "jneg (Fin a) = Fin (- a)"
| "jneg PInf = NInf"
| "jneg NInf = PInf"
| "jneg NaN = NaN"

fun jadd :: "jsnum \<Rightarrow> jsnum \<Rightarrow> jsnum" where
  "jadd (Fin a) (Fin b) = fin (a + b)"
| "jadd (Fin a) PInf = PInf"
| "jadd (Fin a) NInf = NInf"
| "jadd (Fin a) NaN = NaN"
| "jadd PInf (Fin b) = PInf"
| "jadd PInf PInf = PInf"
| "jadd PInf NInf = NaN"
| "jadd PInf NaN = NaN"
| "jadd NInf (Fin b) = NInf"
| "jadd NInf PInf = NaN"
| "jadd NInf NInf = NInf"
| "jadd NInf NaN = NaN"
| "jadd NaN y = NaN"

definition jsub :: "jsnum \<Rightarrow> jsnum \<Rightarrow> jsnum" where
  "jsub x y = jadd x (jneg y)"

fun jmul :: "jsnum \<Rightarrow> jsnum \<Rightarrow> jsnum" where
  "jmul (Fin a) (Fin b) = fin (a * b)"
| "jmul (Fin a) PInf = (if a = 0 then NaN else if 0 < a then PInf else NInf)"
| "jmul (Fin a) NInf = (if a = 0 then NaN else if 0 < a then NInf else PInf)"
| "jmul (Fin a) NaN = NaN"
| "jmul PInf (Fin b) = (if b = 0 then NaN else if 0 < b then PInf else NInf)"
| "jmul PInf PInf = PInf"
| "jmul PInf NInf = NInf"
| "jmul PInf NaN = NaN"
| "jmul NInf (Fin b) = (if b = 0 then NaN else if 0 < b then NInf else PInf)"
| "jmul NInf PInf = NInf"
| "jmul NInf NInf = PInf"
| "jmul NInf NaN = NaN"
| "jmul NaN y = NaN"

fun jdiv :: "jsnum \<Rightarrow> jsnum \<Rightarrow> jsnum" where
  "jdiv (Fin a) (Fin b) =
     (if b = 0 then (if a = 0 then NaN else if 0 < a then PInf else NInf)
      else fin (a / b))"
| "jdiv (Fin a) PInf = Fin 0"
| "jdiv (Fin a) NInf = Fin 0"
| "jdiv (Fin a) NaN = NaN"
| "jdiv PInf (Fin b) = (if 0 \<le> b then PInf else NInf)"
| "jdiv PInf PInf = NaN"
| "jdiv PInf NInf = NaN"
| "jdiv PInf NaN = NaN"
| "jdiv NInf (Fin b) = (if 0 \<le> b then NInf else PInf)"
| "jdiv NInf PInf = NaN"
| "jdiv NInf NInf = NaN"
| "jdiv NInf NaN = NaN"
| "jdiv NaN y = NaN"

text \<open>The comparison \<^verbatim>\<open>x < y\<close>; the other three are written with it.\<close>

fun jlt :: "jsnum \<Rightarrow> jsnum \<Rightarrow> bool" where
  "jlt (Fin a) (Fin b) = (a < b)"
| "jlt (Fin a) PInf = True"
| "jlt (Fin a) NInf = False"
| "jlt (Fin a) NaN = False"
| "jlt PInf y = False"
| "jlt NInf (Fin b) = True"
| "jlt NInf PInf = True"
| "jlt NInf NInf = False"
| "jlt NInf NaN = False"
| "jlt NaN y = False"

text \<open>Strict equality \<^verbatim>\<open>x === y\<close> of two numbers: NaN equals nothing.\<close>

fun jeq :: "jsnum \<Rightarrow> jsnum \<Rightarrow> bool" where
  "jeq NaN y = False"
| "jeq x NaN = False"
| "jeq x y = (x = y)"

definition jgt :: "jsnum \<Rightarrow> jsnum \<Rightarrow> bool" where
  "jgt x y = jlt y x"

definition jle :: "jsnum \<Rightarrow> jsnum \<Rightarrow> bool" where
  "jle x y = (if jlt x y then True else jeq x y)"

definition jge :: "jsnum \<Rightarrow> jsnum \<Rightarrow> bool" where
  "jge x y = jle y x"

fun jabs :: "jsnum \<Rightarrow> jsnum" where
  "jabs (Fin a) = Fin \<bar>a\<bar>"
| "jabs PInf = PInf"
| "jabs NInf = PInf"
| "jabs NaN = NaN"

text \<open>\<^verbatim>\<open>Math.max\<close> and \<^verbatim>\<open>Math.min\<close> of two arguments: NaN when either is NaN.\<close>

definition jmax :: "jsnum \<Rightarrow> jsnum \<Rightarrow> jsnum" where
  "jmax x y = (if x = NaN then NaN else if y = NaN then NaN else if jlt x y then y else x)"

definition jmin :: "jsnum \<Rightarrow> jsnum \<Rightarrow> jsnum" where
  "jmin x y = (if x = NaN then NaN else if y = NaN then NaN else if jlt y x then y else x)"

text \<open>\<^verbatim>\<open>x || 0\<close> on a number: NaN and zero are falsy.\<close>

definition orZero :: "jsnum \<Rightarrow> jsnum" where
  "orZero x = (if x = NaN then Fin 0 else if x = Fin 0 then Fin 0 else x)"

text \<open>
  \<^verbatim>\<open>parseFloat(x.toFixed(d))\<close>: \<^verbatim>\<open>toFixed\<close> rounds the absolute value to the nearest
  multiple of \<open>10\<^sup>-\<^sup>d\<close>, to the larger one at a tie, and keeps the sign; from \<open>10\<^sup>2\<^sup>1\<close> on
  it prints the number itself.
\<close>

fun toFixed :: "nat \<Rightarrow> jsnum \<Rightarrow> jsnum" where
  "toFixed d (Fin a) =
     (if \<bar>a\<bar> < 10 ^ 21 then Fin (sgn a * (of_int \<lfloor>\<bar>a\<bar> * 10 ^ d + 1 / 2\<rfloor> / 10 ^ d))
      else Fin a)"
| "toFixed d PInf = PInf"
| "toFixed d NInf = NInf"
| "toFixed d NaN = NaN"

text \<open>The sum \<^verbatim>\<open>xs.reduce((a, b) => a + b, init)\<close>.\<close>

definition jsum :: "jsnum \<Rightarrow> jsnum list \<Rightarrow> jsnum" where
  "jsum init xs = foldl jadd init xs"

section \<open>The position tracker: data\<close>

text \<open>
  The interfaces of \<^verbatim>\<open>utils/types\<close> that the tracker uses. Fields keep their names; the
  fields of a pyramid level and of a feed entry that share a name with a field of
  \<open>position\<close> carry a prefix. The optional fields of a position are options. A pyramid
  level and a position take the type of their numbers as a parameter: \<open>jsnum\<close> in memory,
  and in the JSON document a number or \<^verbatim>\<open>null\<close>.
\<close>

datatype regime = Choppy | Weak | Moderate | Strong

datatype positionStatus = Open | Closed

datatype levelStatus = Active | LevelClosed

datatype levelNo = L1 | L2

datatype decision = BUY | HOLD

record aiDecision =
  decision :: decision
  confidence :: jsnum
  reasoning :: "string list"

record 'n pyramidLevelOf =
  level :: levelNo
  lEntryPrice :: 'n
  lVolume :: 'n
  lEntryTime :: 'n
  triggerProfitPct :: 'n
  aiConfidence :: 'n
  lStatus :: levelStatus

record 'n positionOf =
  pair :: string
  entryPrice :: 'n
  volume :: 'n
  entryTime :: 'n
  stopLoss :: 'n
  profitTarget :: 'n
  pyramidLevels :: "'n pyramidLevelOf list"
  totalVolume :: 'n
  pyramidLevelsActivated :: nat
  currentProfit :: 'n
  profitPct :: 'n
  peakProfit :: 'n
  erosionCap :: 'n
  erosionUsed :: 'n
  aiReasoning :: "string list"
  adx :: 'n
  regime :: regime
  status :: positionStatus
  exitPrice :: "'n option"
  exitTime :: "'n option"
  exitReason :: "string option"

type_synonym pyramidLevel = "jsnum pyramidLevelOf"

type_synonym position = "jsnum positionOf"

text \<open>
  A number as \<^verbatim>\<open>JSON.stringify\<close> writes it: NaN and the infinities become \<^verbatim>\<open>null\<close>,
  here \<open>None\<close>. An optional field that is not set is left out of the document.
\<close>

type_synonym jsonNumber = "real option"

fun stringifyNumber :: "jsnum \<Rightarrow> jsonNumber" where
  "stringifyNumber (Fin a) = Some a"
| "stringifyNumber PInf = None"
| "stringifyNumber NInf = None"
| "stringifyNumber NaN = None"

definition stringifyLevel :: "pyramidLevel \<Rightarrow> jsonNumber pyramidLevelOf" where
  "stringifyLevel l =
     \<lparr>level = level l, lEntryPrice = stringifyNumber (lEntryPrice l),
      lVolume = stringifyNumber (lVolume l), lEntryTime = stringifyNumber (lEntryTime l),
      triggerProfitPct = stringifyNumber (triggerProfitPct l),
      aiConfidence = stringifyNumber (aiConfidence l), lStatus = lStatus l\<rparr>"

definition stringifyPosition :: "position \<Rightarrow> jsonNumber positionOf" where
  "stringifyPosition p =
     \<lparr>pair = pair p, entryPrice = stringifyNumber (entryPrice p),
      volume = stringifyNumber (volume p), entryTime = stringifyNumber (entryTime p),
      stopLoss = stringifyNumber (stopLoss p), profitTarget = stringifyNumber (profitTarget p),
      pyramidLevels = map stringifyLevel (pyramidLevels p),
      totalVolume = stringifyNumber (totalVolume p),
      pyramidLevelsActivated = pyramidLevelsActivated p,
      currentProfit = stringifyNumber (currentProfit p),
      profitPct = stringifyNumber (profitPct p), peakProfit = stringifyNumber (peakProfit p),
      erosionCap = stringifyNumber (erosionCap p), erosionUsed = stringifyNumber (erosionUsed p),
      aiReasoning = aiReasoning p, adx = stringifyNumber (adx p), regime = regime p,
      status = status p, exitPrice = map_option stringifyNumber (exitPrice p),
      exitTime = map_option stringifyNumber (exitTime p), exitReason = exitReason p\<rparr>"

datatype action = ENTRY | PYRAMID | EXIT | EROSION_ALERT | UNDERWATER_ALERT | COLLAPSE_ALERT

text \<open>The \<^verbatim>\<open>details\<close> object of a feed entry, one constructor for each shape the tracker writes.\<close>

datatype details =
    PriceVolume jsnum jsnum
  | ExitDetails jsnum jsnum jsnum string
  | ErosionDetails jsnum jsnum jsnum
  | UnderwaterDetails jsnum jsnum
  | CollapseDetails jsnum jsnum

record activityFeedEntry =
  timestamp :: jsnum
  feedPair :: string
  action :: action
  details :: details

text \<open>The document written to \<^verbatim>\<open>positions.json\<close>.\<close>

record snapshot =
  snapOpen :: "jsonNumber positionOf list"
  snapClosed :: "jsonNumber positionOf list"
  snapTimestamp :: jsonNumber

text \<open>
  The tracker. The \<^verbatim>\<open>Map\<close> of open positions is an association list in insertion
  order, which is the order \<^verbatim>\<open>Array.from(positions.values())\<close> writes. \<open>diskFile\<close> is
  the content of \<^verbatim>\<open>positions.json\<close>, \<open>None\<close> while the file does not exist.
\<close>

record tracker =
  positions :: "(string \<times> position) list"
  closedPositions :: "position list"
  activityFeed :: "activityFeedEntry list"
  profitLockGivebackPct :: jsnum
  accountBalance :: jsnum
  diskFile :: "snapshot option"

text \<open>
  What a call reads from its environment: the clock (all reads of \<^verbatim>\<open>Date.now()\<close> within
  one call return \<open>now\<close>) and whether \<^verbatim>\<open>fs.writeFileSync\<close> succeeds.
\<close>

record env =
  now :: jsnum
  writeOk :: bool

text \<open>The two fields of \<^verbatim>\<open>Config\<close> that the tracker reads.\<close>

record config =
  underwaterExitMinTimeMinutes :: jsnum
  underwaterExitThresholdPct :: jsnum

record performanceStats =
  totalTrades :: nat
  winningTrades :: nat
  losingTrades :: nat
  winRate :: jsnum
  totalProfit :: jsnum
  totalLoss :: jsnum
  expectancy :: jsnum
  profitFactor :: jsnum
  maxDrawdown :: jsnum
  maxDrawdownPct :: jsnum

section \<open>The position tracker: operations\<close>

text \<open>
  Each method takes the tracker and returns the tracker it leaves; a method with a result
  returns the pair of both. Calls of the logger have no effect on the tracker and are
  left out.
\<close>

definition maxActivityFeedSize :: nat where
  "maxActivityFeedSize = 100"

text \<open>
  The constructor on a data directory that holds no \<^verbatim>\<open>positions.json\<close>:
  \<^verbatim>\<open>loadPositions\<close> finds no file and leaves the tracker empty. Reading a document back
  is not part of the model.
\<close>

definition newTracker :: "jsnum \<Rightarrow> jsnum \<Rightarrow> tracker" where
  "newTracker givebackPct balance =
     \<lparr>positions = [], closedPositions = [], activityFeed = [],
      profitLockGivebackPct = givebackPct, accountBalance = balance, diskFile = None\<rparr>"

text \<open>
  \<^verbatim>\<open>savePositions\<close> writes \<^verbatim>\<open>JSON.stringify\<close> of the open positions, in the order of
  the map, of the closed positions and of the clock; a failed write is caught and leaves the
  file as it was.
\<close>

definition savePositions :: "env \<Rightarrow> tracker \<Rightarrow> tracker" where
  "savePositions e T =
     (if writeOk e
      then T\<lparr>diskFile := Some \<lparr>snapOpen = map (\<lambda>kv. stringifyPosition (snd kv)) (positions T),
                            snapClosed = map stringifyPosition (closedPositions T),
                            snapTimestamp = stringifyNumber (now e)\<rparr>\<rparr>
      else T)"

definition logActivity :: "activityFeedEntry \<Rightarrow> tracker \<Rightarrow> tracker" where
  "logActivity entry T =
     (let feed = activityFeed T @ [entry]
      in T\<lparr>activityFeed :=
             (if maxActivityFeedSize < length feed
              then drop (length feed - maxActivityFeedSize) feed
              else feed)\<rparr>)"

definition addPosition ::
  "env \<Rightarrow> tracker \<Rightarrow> string \<Rightarrow> jsnum \<Rightarrow> jsnum \<Rightarrow> jsnum \<Rightarrow> jsnum \<Rightarrow> aiDecision \<Rightarrow> jsnum \<Rightarrow>
   regime \<Rightarrow> jsnum \<Rightarrow> tracker" where
  "addPosition e T pr price vol sl pt ai adxAtEntry rg cap =
     (case map_of (positions T) pr of
        Some existing \<Rightarrow> T
      | None \<Rightarrow>
          (let position =
                 \<lparr>pair = pr, entryPrice = price, volume = vol, entryTime = now e,
                  stopLoss = sl, profitTarget = pt,
                  pyramidLevels = [], totalVolume = vol, pyramidLevelsActivated = 0,
                  currentProfit = Fin 0, profitPct = Fin 0, peakProfit = Fin 0,
                  erosionCap = cap, erosionUsed = Fin 0,
                  aiReasoning = reasoning ai, adx = adxAtEntry, regime = rg,
                  status = Open, exitPrice = None, exitTime = None, exitReason = None\<rparr>;
               T1 = T\<lparr>positions := AList.update pr position (positions T)\<rparr>;
               T2 = savePositions e T1
           in logActivity
                \<lparr>timestamp = now e, feedPair = pr, action = ENTRY,
                 details = PriceVolume price vol\<rparr> T2))"

definition getPosition :: "tracker \<Rightarrow> string \<Rightarrow> position option" where
  "getPosition T pr = map_of (positions T) pr"

definition getOpenPositions :: "tracker \<Rightarrow> position list" where
  "getOpenPositions T = filter (\<lambda>p. status p = Open) (map snd (positions T))"

definition getClosedPositions :: "tracker \<Rightarrow> position list" where
  "getClosedPositions T = closedPositions T"

text \<open>
  The body of \<^verbatim>\<open>updatePosition\<close> on the position it found: one pass over the pyramid
  levels accumulates profit and cost, each level at its own entry price.
\<close>

definition refreshPosition :: "position \<Rightarrow> jsnum \<Rightarrow> position" where
  "refreshPosition position currentPrice =
     (let l0Cost = jmul (entryPrice position) (volume position);
          l0Profit = jmul (jsub currentPrice (entryPrice position)) (volume position);
          totals =
            foldl (\<lambda>(totalProfit, totalCost) lv.
                     (jadd totalProfit (jmul (jsub currentPrice (lEntryPrice lv)) (lVolume lv)),
                      jadd totalCost (jmul (lEntryPrice lv) (lVolume lv))))
                  (jadd (Fin 0) l0Profit, jadd (Fin 0) l0Cost) (pyramidLevels position);
          totalProfit = fst totals;
          totalCost = snd totals;
          p1 = position\<lparr>currentProfit := totalProfit,
                        profitPct := (if jgt totalCost (Fin 0)
                                      then jmul (jdiv totalProfit totalCost) (Fin 100)
                                      else Fin 0)\<rparr>
      in if jgt (currentProfit p1) (peakProfit p1)
         then p1\<lparr>peakProfit := currentProfit p1, erosionUsed := Fin 0\<rparr>
         else p1\<lparr>erosionUsed := jsub (peakProfit p1) (currentProfit p1)\<rparr>)"

definition updatePosition :: "tracker \<Rightarrow> string \<Rightarrow> jsnum \<Rightarrow> tracker" where
  "updatePosition T pr currentPrice =
     (case map_of (positions T) pr of
        None \<Rightarrow> T
      | Some position \<Rightarrow>
          T\<lparr>positions := AList.update pr (refreshPosition position currentPrice) (positions T)\<rparr>)"

definition addPyramidLevel ::
  "env \<Rightarrow> tracker \<Rightarrow> string \<Rightarrow> levelNo \<Rightarrow> jsnum \<Rightarrow> jsnum \<Rightarrow> jsnum \<Rightarrow> bool \<times> tracker" where
  "addPyramidLevel e T pr lv price vol conf =
     (case map_of (positions T) pr of
        None \<Rightarrow> (False, T)
      | Some position \<Rightarrow>
          if 2 \<le> pyramidLevelsActivated position then (False, T)
          else if list_ex (\<lambda>l. level l = lv) (pyramidLevels position) then (False, T)
          else
            (let triggerPct = (if lv = L1 then Fin 0.045 else Fin 0.08);
                 pyramidLevel =
                   \<lparr>level = lv, lEntryPrice = price, lVolume = vol, lEntryTime = now e,
                    triggerProfitPct = triggerPct, aiConfidence = conf, lStatus = Active\<rparr>;
                 p1 = position\<lparr>pyramidLevels := pyramidLevels position @ [pyramidLevel],
                               totalVolume := jadd (totalVolume position) vol,
                               pyramidLevelsActivated := Suc (pyramidLevelsActivated position)\<rparr>;
                 T1 = T\<lparr>positions := AList.update pr p1 (positions T)\<rparr>;
                 T2 = savePositions e T1;
                 T3 = logActivity
                        \<lparr>timestamp = now e, feedPair = pr, action = PYRAMID,
                         details = PriceVolume price vol\<rparr> T2
             in (True, T3)))"

text \<open>
  The cost basis \<^verbatim>\<open>entryPrice * volume + pyramidLevels.reduce(...)\<close> and the peak as a
  percentage of it, which \<^verbatim>\<open>checkErosionCap\<close> and \<^verbatim>\<open>checkProfitableCollapse\<close> both
  compute.
\<close>

definition totalCostOf :: "position \<Rightarrow> jsnum" where
  "totalCostOf position =
     jadd (jmul (entryPrice position) (volume position))
          (foldl (\<lambda>sum lvl. jadd sum (jmul (lEntryPrice lvl) (lVolume lvl))) (Fin 0)
                 (pyramidLevels position))"

definition peakProfitPctOf :: "position \<Rightarrow> jsnum" where
  "peakProfitPctOf position =
     (let totalCost = totalCostOf position
      in if jgt totalCost (Fin 0)
         then jmul (jdiv (peakProfit position) totalCost) (Fin 100)
         else Fin 0)"

definition checkErosionCap :: "env \<Rightarrow> tracker \<Rightarrow> string \<Rightarrow> bool \<times> tracker" where
  "checkErosionCap e T pr =
     (case map_of (positions T) pr of
        None \<Rightarrow> (False, T)
      | Some position \<Rightarrow>
          if jle (peakProfit position) (Fin 0) then (False, T)
          else if jlt (peakProfitPctOf position) (Fin 1) then (False, T)
          else
            (let givebackRatio = jdiv (erosionUsed position) (peakProfit position);
                 givebackPct = jmul givebackRatio (Fin 100)
             in if jgt givebackRatio (profitLockGivebackPct T)
                then (True,
                      logActivity
                        \<lparr>timestamp = now e, feedPair = pr, action = EROSION_ALERT,
                         details = ErosionDetails (toFixed 2 givebackPct)
                                     (toFixed 2 (peakProfit position))
                                     (toFixed 2 (currentProfit position))\<rparr> T)
                else (False, T)))"

definition checkUnderwaterExit :: "env \<Rightarrow> tracker \<Rightarrow> string \<Rightarrow> config \<Rightarrow> bool \<times> tracker" where
  "checkUnderwaterExit e T pr cfg =
     (case map_of (positions T) pr of
        None \<Rightarrow> (False, T)
      | Some position \<Rightarrow>
          if jgt (peakProfit position) (Fin 0) then (False, T)
          else if jge (currentProfit position) (Fin 0) then (False, T)
          else
            (let ageMinutes = jdiv (jsub (now e) (entryTime position)) (Fin 60000)
             in if jlt ageMinutes (underwaterExitMinTimeMinutes cfg) then (False, T)
                else
                  (let lossPct = profitPct position;
                       thresholdPct = jmul (underwaterExitThresholdPct cfg) (Fin 100)
                   in if jlt lossPct thresholdPct
                      then (True,
                            logActivity
                              \<lparr>timestamp = now e, feedPair = pr, action = UNDERWATER_ALERT,
                               details = UnderwaterDetails (toFixed 2 lossPct)
                                           (toFixed 1 ageMinutes)\<rparr> T)
                      else (False, T))))"

definition checkProfitableCollapse :: "env \<Rightarrow> tracker \<Rightarrow> string \<Rightarrow> bool \<times> tracker" where
  "checkProfitableCollapse e T pr =
     (case map_of (positions T) pr of
        None \<Rightarrow> (False, T)
      | Some position \<Rightarrow>
          (let peakProfitPct = peakProfitPctOf position
           in if jlt peakProfitPct (Fin 0.5) then (False, T)
              else if jge (currentProfit position) (Fin 0) then (False, T)
              else (True,
                    logActivity
                      \<lparr>timestamp = now e, feedPair = pr, action = COLLAPSE_ALERT,
                       details = CollapseDetails (toFixed 2 peakProfitPct)
                                   (toFixed 2 (profitPct position))\<rparr> T)))"

definition checkStopLoss :: "tracker \<Rightarrow> string \<Rightarrow> jsnum \<Rightarrow> bool" where
  "checkStopLoss T pr currentPrice =
     (case map_of (positions T) pr of
        None \<Rightarrow> False
      | Some position \<Rightarrow> jle currentPrice (stopLoss position))"

definition checkProfitTarget :: "tracker \<Rightarrow> string \<Rightarrow> jsnum \<Rightarrow> bool" where
  "checkProfitTarget T pr currentPrice =
     (case map_of (positions T) pr of
        None \<Rightarrow> False
      | Some position \<Rightarrow> jge currentPrice (profitTarget position))"

definition isReadyForL1 :: "tracker \<Rightarrow> string \<Rightarrow> jsnum \<Rightarrow> jsnum \<Rightarrow> bool" where
  "isReadyForL1 T pr profit l1TriggerPct =
     (case map_of (positions T) pr of
        None \<Rightarrow> False
      | Some position \<Rightarrow>
          if 1 \<le> pyramidLevelsActivated position then False
          else jge profit l1TriggerPct)"

definition isReadyForL2 :: "tracker \<Rightarrow> string \<Rightarrow> jsnum \<Rightarrow> jsnum \<Rightarrow> bool" where
  "isReadyForL2 T pr profit l2TriggerPct =
     (case map_of (positions T) pr of
        None \<Rightarrow> False
      | Some position \<Rightarrow>
          if pyramidLevelsActivated position < 1 then False
          else if 2 \<le> pyramidLevelsActivated position then False
          else jge profit l2TriggerPct)"

text \<open>
  The fields \<^verbatim>\<open>closePosition\<close> writes to the position it found, in the order of the
  source: the exit fields and the status, then the profit from the entry price and the
  volume of the position itself.
\<close>

definition closedPosition :: "env \<Rightarrow> position \<Rightarrow> jsnum \<Rightarrow> string \<Rightarrow> position" where
  "closedPosition e position price reason =
     (let p1 = position\<lparr>exitPrice := Some price, exitTime := Some (now e),
                        exitReason := Some reason, status := Closed\<rparr>;
          profitFraction = jdiv (jsub price (entryPrice p1)) (entryPrice p1);
          p2 = p1\<lparr>profitPct := jmul profitFraction (Fin 100)\<rparr>
      in p2\<lparr>currentProfit := jmul (jmul (volume p2) profitFraction) (entryPrice p2)\<rparr>)"

definition closePosition :: "env \<Rightarrow> tracker \<Rightarrow> string \<Rightarrow> jsnum \<Rightarrow> string \<Rightarrow> tracker" where
  "closePosition e T pr price reason =
     (case map_of (positions T) pr of
        None \<Rightarrow> T
      | Some position \<Rightarrow>
          (let p3 = closedPosition e position price reason;
               T1 = logActivity
                      \<lparr>timestamp = now e, feedPair = pr, action = EXIT,
                       details = ExitDetails price (currentProfit p3) (profitPct p3) reason\<rparr> T;
               T2 = T1\<lparr>closedPositions := closedPositions T1 @ [p3],
                       positions := AList.delete pr (positions T1)\<rparr>
           in savePositions e T2))"

definition updateAccountBalance :: "tracker \<Rightarrow> jsnum \<Rightarrow> tracker" where
  "updateAccountBalance T balance = T\<lparr>accountBalance := balance\<rparr>"

definition clearAll :: "tracker \<Rightarrow> tracker" where
  "clearAll T = T\<lparr>positions := []\<rparr>"

text \<open>The accumulators of the loop of \<^verbatim>\<open>getPerformanceStats\<close> and one turn of it.\<close>

record statsAcc =
  accProfit :: jsnum
  accLoss :: jsnum
  accWinning :: nat
  accLosing :: nat
  accMaxDrawdown :: jsnum
  accCumulative :: jsnum
  accPeak :: jsnum

definition statsStep :: "statsAcc \<Rightarrow> position \<Rightarrow> statsAcc" where
  "statsStep a position =
     (let profit = orZero (currentProfit position);
          a1 = (if jgt profit (Fin 0)
                then a\<lparr>accProfit := jadd (accProfit a) profit, accWinning := Suc (accWinning a)\<rparr>
                else a\<lparr>accLoss := jadd (accLoss a) (jabs profit), accLosing := Suc (accLosing a)\<rparr>);
          a2 = a1\<lparr>accCumulative := jadd (accCumulative a1) profit\<rparr>;
          a3 = (if jgt (accCumulative a2) (accPeak a2) then a2\<lparr>accPeak := accCumulative a2\<rparr> else a2);
          drawdown = jsub (accPeak a3) (accCumulative a3)
      in if jgt drawdown (accMaxDrawdown a3) then a3\<lparr>accMaxDrawdown := drawdown\<rparr> else a3)"

definition statsInit :: statsAcc where
  "statsInit =
     \<lparr>accProfit = Fin 0, accLoss = Fin 0, accWinning = 0, accLosing = 0,
      accMaxDrawdown = Fin 0, accCumulative = Fin 0, accPeak = Fin 0\<rparr>"

definition getPerformanceStats :: "tracker \<Rightarrow> performanceStats" where
  "getPerformanceStats T =
     (if length (closedPositions T) = 0
      then \<lparr>totalTrades = 0, winningTrades = 0, losingTrades = 0, winRate = Fin 0,
            totalProfit = Fin 0, totalLoss = Fin 0, expectancy = Fin 0, profitFactor = Fin 0,
            maxDrawdown = Fin 0, maxDrawdownPct = Fin 0\<rparr>
      else
        (let a = foldl statsStep statsInit (closedPositions T);
             n = length (closedPositions T);
             rate = (if 0 < n
                     then jmul (jdiv (Fin (real (accWinning a))) (Fin (real n))) (Fin 100)
                     else Fin 0);
             totalGain = jsub (accProfit a) (accLoss a);
             expect = (if 0 < n then jdiv totalGain (Fin (real n)) else Fin 0);
             factor = (if jgt (accLoss a) (Fin 0) then jdiv (accProfit a) (accLoss a)
                       else if jgt (accProfit a) (Fin 0) then PInf else Fin 0);
             drawdownPct = (if jgt (accountBalance T) (Fin 0)
                            then jmul (jdiv (accMaxDrawdown a) (accountBalance T)) (Fin 100)
                            else Fin 0)
         in \<lparr>totalTrades = n, winningTrades = accWinning a, losingTrades = accLosing a,
             winRate = rate, totalProfit = accProfit a, totalLoss = accLoss a,
             expectancy = expect, profitFactor = factor,
             maxDrawdown = accMaxDrawdown a, maxDrawdownPct = drawdownPct\<rparr>))"

section \<open>The indicator calculator\<close>

text \<open>
  The static methods of \<^verbatim>\<open>IndicatorCalculator\<close> on lists of numbers. A window length
  (\<^verbatim>\<open>period\<close>, \<^verbatim>\<open>fast\<close>, \<^verbatim>\<open>slow\<close>, \<^verbatim>\<open>signal\<close>) is a natural number. A method
  that can throw returns a sum, \<open>Inl\<close> the exception; the only exception in reach is the
  \<^verbatim>\<open>TypeError\<close> of \<^verbatim>\<open>reduce\<close> without an initial value on an empty array.
\<close>

datatype error = TypeError

text \<open>
  \<^verbatim>\<open>xs[i]\<close>: outside the array it is \<^verbatim>\<open>undefined\<close>, which the arithmetic of every use
  here turns into NaN. \<^verbatim>\<open>xs.slice(-n)\<close>: the last \<open>n\<close> elements, and the whole array for
  \<open>n = 0\<close>. \<^verbatim>\<open>xs.reduce((a, b) => a + b)\<close>: the sum from the first element on.
\<close>

definition elemAt :: "jsnum list \<Rightarrow> nat \<Rightarrow> jsnum" where
  "elemAt xs i = (if i < length xs then xs ! i else NaN)"

definition sliceLast :: "nat \<Rightarrow> 'a list \<Rightarrow> 'a list" where
  "sliceLast n xs = (if n = 0 then xs else drop (length xs - n) xs)"

definition reduceAdd :: "jsnum list \<Rightarrow> error + jsnum" where
  "reduceAdd xs = (case xs of [] \<Rightarrow> Inl TypeError | x # rest \<Rightarrow> Inr (foldl jadd x rest))"

text \<open>
  \<^verbatim>\<open>calculateRSI\<close>: the array of deltas, one turn of the loop over the first \<open>period\<close>
  deltas, one turn of the smoothing loop, and the two averages after both loops.
\<close>

definition rsiDeltas :: "jsnum list \<Rightarrow> jsnum list" where
  "rsiDeltas closes = map (\<lambda>i. jsub (elemAt closes i) (elemAt closes (i - 1))) [1..<length closes]"

definition rsiSeedStep :: "jsnum list \<Rightarrow> jsnum \<times> jsnum \<Rightarrow> nat \<Rightarrow> jsnum \<times> jsnum" where
  "rsiSeedStep deltas acc i =
     (let delta = elemAt deltas i
      in if jgt delta (Fin 0) then (jadd (fst acc) delta, snd acc)
         else (fst acc, jadd (snd acc) (jabs delta)))"

definition rsiSmoothStep :: "jsnum list \<Rightarrow> nat \<Rightarrow> jsnum \<times> jsnum \<Rightarrow> nat \<Rightarrow> jsnum \<times> jsnum" where
  "rsiSmoothStep deltas period acc i =
     (let delta = elemAt deltas i;
          gain = (if jgt delta (Fin 0) then delta else Fin 0);
          loss = (if jlt delta (Fin 0) then jabs delta else Fin 0)
      in (jdiv (jadd (jmul (fst acc) (Fin (real period - 1))) gain) (Fin (real period)),
          jdiv (jadd (jmul (snd acc) (Fin (real period - 1))) loss) (Fin (real period))))"

definition rsiAverages :: "jsnum list \<Rightarrow> nat \<Rightarrow> jsnum \<times> jsnum" where
  "rsiAverages closes period =
     (let deltas = rsiDeltas closes;
          seed = foldl (rsiSeedStep deltas) (Fin 0, Fin 0) [0..<period];
          avgGain = jdiv (fst seed) (Fin (real period));
          avgLoss = jdiv (snd seed) (Fin (real period))
      in foldl (rsiSmoothStep deltas period) (avgGain, avgLoss) [period..<length deltas])"

definition calculateRSI :: "jsnum list \<Rightarrow> nat \<Rightarrow> jsnum" where
  "calculateRSI closes period =
     (if length closes < period + 1 then Fin 50
      else
        (let avgGain = fst (rsiAverages closes period);
             avgLoss = snd (rsiAverages closes period)
         in if jeq avgLoss (Fin 0) then Fin 100
            else
              (let rs = jdiv avgGain avgLoss;
                   rsi = jsub (Fin 100) (jdiv (Fin 100) (jadd (Fin 1) rs))
               in jmin (Fin 100) (jmax (Fin 0) rsi))))"

definition calculateEMA :: "jsnum list \<Rightarrow> nat \<Rightarrow> error + jsnum" where
  "calculateEMA closes period =
     (if length closes = 0 then Inr (Fin 0)
      else if length closes \<le> period
      then (case reduceAdd closes of
              Inl err \<Rightarrow> Inl err
            | Inr added \<Rightarrow> Inr (jdiv added (Fin (real (length closes)))))
      else
        (let multiplier = jdiv (Fin 2) (Fin (real period + 1))
         in case reduceAdd (take period closes) of
              Inl err \<Rightarrow> Inl err
            | Inr added \<Rightarrow>
                Inr (foldl (\<lambda>ema i. jadd (jmul (elemAt closes i) multiplier)
                                           (jmul ema (jsub (Fin 1) multiplier)))
                       (jdiv added (Fin (real period))) [period..<length closes])))"

definition calculateSMA :: "jsnum list \<Rightarrow> nat \<Rightarrow> error + jsnum" where
  "calculateSMA vals period =
     (if length vals < period
      then Inr (jdiv (jsum (Fin 0) vals) (Fin (real (length vals))))
      else
        (let recentValues = sliceLast period vals
         in case reduceAdd recentValues of
              Inl err \<Rightarrow> Inl err
            | Inr added \<Rightarrow> Inr (jdiv added (Fin (real period)))))"

definition calculateVolumeRatio :: "jsnum list \<Rightarrow> nat \<Rightarrow> error + jsnum" where
  "calculateVolumeRatio volumes period =
     (if length volumes = 0 then Inr (Fin 1)
      else
        (let currentVolume = elemAt volumes (length volumes - 1)
         in case calculateSMA volumes (min period (length volumes)) of
              Inl err \<Rightarrow> Inl err
            | Inr avgVolume \<Rightarrow>
                Inr (if jgt avgVolume (Fin 0) then jdiv currentVolume avgVolume else Fin 1)))"

definition calculateMomentum :: "jsnum list \<Rightarrow> nat \<Rightarrow> jsnum" where
  "calculateMomentum closes period =
     (if length closes < period + 1 then Fin 0
      else
        (let currentClose = elemAt closes (length closes - 1);
             previousClose = elemAt closes (length closes - 1 - period)
         in if \<not> jeq previousClose (Fin 0)
            then jdiv (jsub currentClose previousClose) previousClose
            else Fin 0))"

record macd =
  line :: jsnum
  signal :: jsnum
  histogram :: jsnum

text \<open>The MACD line of a list of closes: the difference of its two moving averages.\<close>

definition macdLine :: "jsnum list \<Rightarrow> nat \<Rightarrow> nat \<Rightarrow> error + jsnum" where
  "macdLine closes fast slow =
     (case calculateEMA closes fast of
        Inl err \<Rightarrow> Inl err
      | Inr ema12 \<Rightarrow>
          (case calculateEMA closes slow of
             Inl err \<Rightarrow> Inl err
           | Inr ema26 \<Rightarrow> Inr (jsub ema12 ema26)))"

text \<open>
  The loop that fills \<^verbatim>\<open>macdValues\<close>, over the indices from \<^verbatim>\<open>slow - 1\<close> to the last;
  the first exception ends it.
\<close>

fun macdValues :: "jsnum list \<Rightarrow> nat \<Rightarrow> nat \<Rightarrow> int list \<Rightarrow> error + jsnum list" where
  "macdValues closes fast slow [] = Inr []"
| "macdValues closes fast slow (i # rest) =
     (case macdLine (take (nat (i + 1)) closes) fast slow of
        Inl err \<Rightarrow> Inl err
      | Inr v \<Rightarrow>
          (case macdValues closes fast slow rest of
             Inl err \<Rightarrow> Inl err
           | Inr vs \<Rightarrow> Inr (v # vs)))"

definition calculateMACD :: "jsnum list \<Rightarrow> nat \<Rightarrow> nat \<Rightarrow> nat \<Rightarrow> error + macd" where
  "calculateMACD closes fast slow signalPeriod =
     (if int (length closes) < int slow + int signalPeriod - 1
      then Inr \<lparr>line = Fin 0, signal = Fin 0, histogram = Fin 0\<rparr>
      else
        (case macdLine closes fast slow of
           Inl err \<Rightarrow> Inl err
         | Inr lineNow \<Rightarrow>
             (case macdValues closes fast slow [int slow - 1 .. int (length closes) - 1] of
                Inl err \<Rightarrow> Inl err
              | Inr vs \<Rightarrow>
                  (case calculateEMA vs signalPeriod of
                     Inl err \<Rightarrow> Inl err
                   | Inr signalLine \<Rightarrow>
                       Inr \<lparr>line = lineNow, signal = signalLine,
                            histogram = jsub lineNow signalLine\<rparr>))))"

text \<open>The three values the first loop of \<^verbatim>\<open>calculateADX\<close> pushes for the bar \<open>i\<close>.\<close>

definition trueRangeAt :: "jsnum list \<Rightarrow> jsnum list \<Rightarrow> jsnum list \<Rightarrow> nat \<Rightarrow> jsnum" where
  "trueRangeAt highs lows closes i =
     jmax (jmax (jsub (elemAt highs i) (elemAt lows i))
                (jabs (jsub (elemAt highs i) (elemAt closes (i - 1)))))
          (jabs (jsub (elemAt lows i) (elemAt closes (i - 1))))"

definition plusDMAt :: "jsnum list \<Rightarrow> jsnum list \<Rightarrow> nat \<Rightarrow> jsnum" where
  "plusDMAt highs lows i =
     (let upMove = jsub (elemAt highs i) (elemAt highs (i - 1));
          downMove = jsub (elemAt lows (i - 1)) (elemAt lows i)
      in if jgt upMove downMove \<and> jgt upMove (Fin 0) then upMove else Fin 0)"

definition minusDMAt :: "jsnum list \<Rightarrow> jsnum list \<Rightarrow> nat \<Rightarrow> jsnum" where
  "minusDMAt highs lows i =
     (let upMove = jsub (elemAt highs i) (elemAt highs (i - 1));
          downMove = jsub (elemAt lows (i - 1)) (elemAt lows i)
      in if jgt downMove upMove \<and> jgt downMove (Fin 0) then downMove else Fin 0)"

text \<open>
  One turn of the smoothing loop of \<^verbatim>\<open>calculateADX\<close> on the three smoothed values and
  the DX values so far; a smoothed true range of zero skips the bar.
\<close>

definition adxStep ::
  "jsnum list \<Rightarrow> jsnum list \<Rightarrow> jsnum list \<Rightarrow> nat \<Rightarrow>
   jsnum \<times> jsnum \<times> jsnum \<times> jsnum list \<Rightarrow> nat \<Rightarrow> jsnum \<times> jsnum \<times> jsnum \<times> jsnum list" where
  "adxStep trueRanges plusDMs minusDMs period st i =
     (case st of (smoothedTR0, smoothedPlusDM0, smoothedMinusDM0, dxValues) \<Rightarrow>
        (let smoothedTR =
               jadd (jsub smoothedTR0 (jdiv smoothedTR0 (Fin (real period)))) (elemAt trueRanges i);
             smoothedPlusDM =
               jadd (jsub smoothedPlusDM0 (jdiv smoothedPlusDM0 (Fin (real period))))
                    (elemAt plusDMs i);
             smoothedMinusDM =
               jadd (jsub smoothedMinusDM0 (jdiv smoothedMinusDM0 (Fin (real period))))
                    (elemAt minusDMs i)
         in if jeq smoothedTR (Fin 0)
            then (smoothedTR, smoothedPlusDM, smoothedMinusDM, dxValues)
            else
              (let plusDI = jmul (jdiv smoothedPlusDM smoothedTR) (Fin 100);
                   minusDI = jmul (jdiv smoothedMinusDM smoothedTR) (Fin 100);
                   diSum = jadd plusDI minusDI;
                   dx = (if jeq diSum (Fin 0) then Fin 0
                         else jmul (jdiv (jabs (jsub plusDI minusDI)) diSum) (Fin 100))
               in (smoothedTR, smoothedPlusDM, smoothedMinusDM, dxValues @ [dx]))))"

definition calculateADX :: "jsnum list \<Rightarrow> jsnum list \<Rightarrow> jsnum list \<Rightarrow> nat \<Rightarrow> jsnum" where
  "calculateADX highs lows closes period =
     (if length highs < period * 2 + 1 then Fin 20
      else
        (let trueRanges = map (trueRangeAt highs lows closes) [1..<length closes];
             plusDMs = map (plusDMAt highs lows) [1..<length closes];
             minusDMs = map (minusDMAt highs lows) [1..<length closes];
             st = foldl (adxStep trueRanges plusDMs minusDMs period)
                    (jsum (Fin 0) (take period trueRanges),
                     jsum (Fin 0) (take period plusDMs),
                     jsum (Fin 0) (take period minusDMs), [])
                    [period..<length trueRanges];
             dxValues = snd (snd (snd st))
         in if length dxValues = 0 then Fin 20
            else
              (let recentDX = sliceLast period dxValues;
                   adxValue = jdiv (jsum (Fin 0) recentDX) (Fin (real (length recentDX)))
               in jmin (Fin 100) (jmax (Fin 0) (if adxValue = NaN then Fin 20 else adxValue)))))"

text \<open>
  \<^verbatim>\<open>Candle\<close> and \<^verbatim>\<open>Indicators\<close>; three fields of a candle and the \<^verbatim>\<open>adx\<close> of the
  indicators carry a prefix or suffix, their names being taken. \<^verbatim>\<open>Math.max(...xs)\<close> starts
  from \<open>-\<infinity>\<close> and \<^verbatim>\<open>Math.min(...xs)\<close> from \<open>\<infinity>\<close>.
\<close>

record candle =
  cTimestamp :: jsnum
  cOpen :: jsnum
  high :: jsnum
  low :: jsnum
  close :: jsnum
  cVolume :: jsnum

record indicators =
  rsi :: jsnum
  macd :: macd
  adxNow :: jsnum
  volumeRatio :: jsnum
  momentum1h :: jsnum
  momentum4h :: jsnum
  recentHigh :: jsnum
  recentLow :: jsnum
  ema200 :: jsnum

definition calculateAllIndicators :: "candle list \<Rightarrow> error + indicators" where
  "calculateAllIndicators candles =
     (if length candles = 0
      then Inr \<lparr>rsi = Fin 50, macd = \<lparr>line = Fin 0, signal = Fin 0, histogram = Fin 0\<rparr>,
                adxNow = Fin 20, volumeRatio = Fin 1, momentum1h = Fin 0, momentum4h = Fin 0,
                recentHigh = Fin 0, recentLow = Fin 0, ema200 = Fin 0\<rparr>
      else
        (let closes = map close candles;
             highs = map high candles;
             lows = map low candles;
             volumes = map cVolume candles;
             recentCandles = sliceLast 20 candles;
             recentHi = foldl jmax NInf (map high recentCandles);
             recentLo = foldl jmin PInf (map low recentCandles);
             m1h = calculateMomentum closes (min 4 (length closes - 1));
             m4h = calculateMomentum closes (min 16 (length closes - 1))
         in case calculateMACD closes 12 26 9 of
              Inl err \<Rightarrow> Inl err
            | Inr macdNow \<Rightarrow>
                (case calculateVolumeRatio volumes 20 of
                   Inl err \<Rightarrow> Inl err
                 | Inr ratio \<Rightarrow>
                     (case calculateEMA closes 200 of
                        Inl err \<Rightarrow> Inl err
                      | Inr ema \<Rightarrow>
                          Inr \<lparr>rsi = calculateRSI closes 14, macd = macdNow,
                               adxNow = calculateADX highs lows closes 14,
                               volumeRatio = ratio, momentum1h = m1h, momentum4h = m4h,
                               recentHigh = recentHi, recentLow = recentLo, ema200 = ema\<rparr>))))"

section \<open>Predicates and scenarios\<close>

text \<open>
  \<open>written\<close>: the document on disk is the JSON text of the open and the closed positions
  the tracker holds in memory. \<open>finiteNumbers\<close>: every number of a position is finite, so
  that none is written as \<^verbatim>\<open>null\<close>. \<open>inSync\<close>: the document on disk holds the positions
  in memory, number for number. \<open>refreshAll\<close>: one call of \<^verbatim>\<open>updatePosition\<close> for each
  price of a list.
\<close>

definition written :: "tracker \<Rightarrow> bool" where
  "written T =
     (case diskFile T of
        None \<Rightarrow> False
      | Some d \<Rightarrow>
          snapOpen d = map (\<lambda>kv. stringifyPosition (snd kv)) (positions T) \<and>
          snapClosed d = map stringifyPosition (closedPositions T))"

definition finiteLevel :: "pyramidLevel \<Rightarrow> bool" where
  "finiteLevel l =
     (isFin (lEntryPrice l) \<and> isFin (lVolume l) \<and> isFin (lEntryTime l) \<and>
      isFin (triggerProfitPct l) \<and> isFin (aiConfidence l))"

definition finiteNumbers :: "position \<Rightarrow> bool" where
  "finiteNumbers p =
     (isFin (entryPrice p) \<and> isFin (volume p) \<and> isFin (entryTime p) \<and> isFin (stopLoss p) \<and>
      isFin (profitTarget p) \<and> list_all finiteLevel (pyramidLevels p) \<and>
      isFin (totalVolume p) \<and> isFin (currentProfit p) \<and> isFin (profitPct p) \<and>
      isFin (peakProfit p) \<and> isFin (erosionCap p) \<and> isFin (erosionUsed p) \<and> isFin (adx p) \<and>
      (case exitPrice p of None \<Rightarrow> True | Some x \<Rightarrow> isFin x) \<and>
      (case exitTime p of None \<Rightarrow> True | Some t \<Rightarrow> isFin t))"

definition allFinite :: "tracker \<Rightarrow> bool" where
  "allFinite T =
     (list_all (\<lambda>kv. finiteNumbers (snd kv)) (positions T) \<and>
      list_all finiteNumbers (closedPositions T))"

definition inSync :: "tracker \<Rightarrow> bool" where
  "inSync T = (written T \<and> allFinite T)"

definition refreshAll :: "tracker \<Rightarrow> string \<Rightarrow> jsnum list \<Rightarrow> tracker" where
  "refreshAll T pr prices = foldl (\<lambda>S price. updatePosition S pr price) T prices"

text \<open>
  \<open>withinBound B\<close>: a finite number of magnitude at most \<open>B\<close>. \<open>normal\<close>: a number as
  arithmetic returns it, that is NaN, an infinity, or a finite number below the magnitude
  where a result overflows.
\<close>

fun normal :: "jsnum \<Rightarrow> bool" where
  "normal (Fin a) = (\<bar>a\<bar> < overflowAt)"
| "normal PInf = True"
| "normal NInf = True"
| "normal NaN = True"


text \<open>
  The first scenario: a tracker on an empty data directory with a giveback limit of 0.5, and
  ETH/USD opened at 3000 with volume 1, stop 2900 and target 3200, at time \<open>0\<close>.
\<close>

definition scenarioEnv :: "real \<Rightarrow> env" where
  "scenarioEnv t = \<lparr>now = Fin t, writeOk = True\<rparr>"

definition scenarioDecision :: aiDecision where
  "scenarioDecision = \<lparr>decision = BUY, confidence = Fin 80, reasoning = []\<rparr>"

definition ethOpened :: tracker where
  "ethOpened =
     addPosition (scenarioEnv 0) (newTracker (Fin 0.5) (Fin 1000)) ''ETH/USD''
       (Fin 3000) (Fin 1) (Fin 2900) (Fin 3200) scenarioDecision (Fin 0) Moderate (Fin 0.008)"

definition ethPosition :: position where
  "ethPosition =
     \<lparr>pair = ''ETH/USD'', entryPrice = Fin 3000, volume = Fin 1, entryTime = Fin 0,
      stopLoss = Fin 2900, profitTarget = Fin 3200,
      pyramidLevels = [], totalVolume = Fin 1, pyramidLevelsActivated = 0,
      currentProfit = Fin 0, profitPct = Fin 0, peakProfit = Fin 0,
      erosionCap = Fin 0.008, erosionUsed = Fin 0,
      aiReasoning = [], adx = Fin 0, regime = Moderate,
      status = Open, exitPrice = None, exitTime = None, exitReason = None\<rparr>"

text \<open>
  A scenario at the edge of the doubles: a pair opened at 1 with a volume of
  \<open>10\<^sup>3\<^sup>0\<^sup>8\<close>, and the position the tracker then holds.
\<close>

definition bigOpened :: tracker where
  "bigOpened =
     addPosition (scenarioEnv 0) (newTracker (Fin 0.5) (Fin 1000)) ''ETH/USD''
       (Fin 1) (Fin (10 ^ 308)) (Fin 0.5) (Fin 2) scenarioDecision (Fin 0) Moderate (Fin 0.008)"

definition bigPosition :: position where
  "bigPosition =
     \<lparr>pair = ''ETH/USD'', entryPrice = Fin 1, volume = Fin (10 ^ 308), entryTime = Fin 0,
      stopLoss = Fin 0.5, profitTarget = Fin 2,
      pyramidLevels = [], totalVolume = Fin (10 ^ 308), pyramidLevelsActivated = 0,
      currentProfit = Fin 0, profitPct = Fin 0, peakProfit = Fin 0,
      erosionCap = Fin 0.008, erosionUsed = Fin 0,
      aiReasoning = [], adx = Fin 0, regime = Moderate,
      status = Open, exitPrice = None, exitTime = None, exitReason = None\<rparr>"

text \<open>
  The second scenario: a pair opened at 100 with volume 10 at time \<open>0\<close> and refreshed at
  99.1, with the configuration of the test scripts (15 minutes, a threshold of -0.008).
  \<open>lossPosition\<close> is the position the tracker then holds.
\<close>

definition underwaterConfig :: config where
  "underwaterConfig =
     \<lparr>underwaterExitMinTimeMinutes = Fin 15, underwaterExitThresholdPct = Fin (- 0.008)\<rparr>"

definition lossOpened :: tracker where
  "lossOpened =
     updatePosition
       (addPosition (scenarioEnv 0) (newTracker (Fin 0.5) (Fin 1000)) ''SOL/USD''
          (Fin 100) (Fin 10) (Fin 97) (Fin 105) scenarioDecision (Fin 0) Moderate (Fin 0.008))
       ''SOL/USD'' (Fin 99.1)"

definition lossPosition :: position where
  "lossPosition =
     \<lparr>pair = ''SOL/USD'', entryPrice = Fin 100, volume = Fin 10, entryTime = Fin 0,
      stopLoss = Fin 97, profitTarget = Fin 105,
      pyramidLevels = [], totalVolume = Fin 10, pyramidLevelsActivated = 0,
      currentProfit = Fin (- 9), profitPct = Fin (- 0.9), peakProfit = Fin 0,
      erosionCap = Fin 0.008, erosionUsed = Fin 9,
      aiReasoning = [], adx = Fin 0, regime = Moderate,
      status = Open, exitPrice = None, exitTime = None, exitReason = None\<rparr>"


text \<open>The test of the loop of \<^verbatim>\<open>getPerformanceStats\<close> for a winning trade.\<close>

definition isWin :: "position \<Rightarrow> bool" where
  "isWin position = jgt (orZero (currentProfit position)) (Fin 0)"

section \<open>Basic facts\<close>

lemmas js_defs = jsub_def jgt_def jle_def jge_def jmax_def jmin_def

lemmas scenario_defs = scenarioEnv_def scenarioDecision_def ethOpened_def newTracker_def
  addPosition_def savePositions_def logActivity_def maxActivityFeedSize_def

lemmas refresh_defs = updatePosition_def refreshPosition_def

lemmas erosion_defs = checkErosionCap_def totalCostOf_def peakProfitPctOf_def

lemma overflowAt_large: "10 ^ 300 < overflowAt"
  by (simp add: overflowAt_def)

lemma overflowAt_pos: "0 < overflowAt"
  using overflowAt_large by simp

lemma fin_small: "\<bar>r\<bar> \<le> 1000000000000 \<Longrightarrow> fin r = Fin r"
  using overflowAt_large by (auto simp: fin_def)

lemma overflowAt_bounds: "10 ^ 308 < overflowAt" "overflowAt \<le> 2 * 10 ^ 308"
  by (simp_all add: overflowAt_def)

lemma fin_mid: "\<bar>r\<bar> \<le> 10 ^ 308 \<Longrightarrow> fin r = Fin r"
  using overflowAt_bounds(1) by (auto simp: fin_def)

lemma fin_huge: "2 * 10 ^ 308 \<le> r \<Longrightarrow> fin r = PInf"
  using overflowAt_bounds(2) by (auto simp: fin_def)


lemma fin_in_range: "\<bar>r\<bar> < overflowAt \<Longrightarrow> fin r = Fin r"
  by (auto simp: fin_def)

lemma fin_cases:
  obtains "overflowAt \<le> r" "fin r = PInf"
  | "r \<le> - overflowAt" "fin r = NInf"
  | "\<bar>r\<bar> < overflowAt" "fin r = Fin r"
proof (cases "overflowAt \<le> r")
  case True
  then show ?thesis using that(1) by (simp add: fin_def)
next
  case False
  show ?thesis
  proof (cases "r \<le> - overflowAt")
    case True
    with False overflowAt_pos show ?thesis using that(2) by (simp add: fin_def)
  next
    case b: False
    with False have "\<bar>r\<bar> < overflowAt" by simp
    with False b show ?thesis using that(3) by (simp add: fin_def)
  qed
qed

lemma fin_not_NaN [simp]: "fin r \<noteq> NaN"
  by (simp add: fin_def)

lemma isFin_conv: "isFin x = (\<exists>r. x = Fin r)"
  by (cases x) auto

lemma jsub_Fin: "jsub (Fin a) (Fin b) = fin (a - b)"
  by (simp add: jsub_def)

lemma jgt_Fin [simp]: "jgt (Fin a) (Fin b) = (b < a)"
  by (simp add: jgt_def)

lemma jle_Fin [simp]: "jle (Fin a) (Fin b) = (a \<le> b)"
  by (auto simp: jle_def)

lemma jge_Fin [simp]: "jge (Fin a) (Fin b) = (b \<le> a)"
  by (auto simp: jge_def)

lemma logActivity_keeps [simp]:
  "positions (logActivity a T) = positions T"
  "closedPositions (logActivity a T) = closedPositions T"
  "diskFile (logActivity a T) = diskFile T"
  "profitLockGivebackPct (logActivity a T) = profitLockGivebackPct T"
  "accountBalance (logActivity a T) = accountBalance T"
  by (simp_all add: logActivity_def Let_def)

lemma savePositions_keeps [simp]:
  "positions (savePositions e T) = positions T"
  "closedPositions (savePositions e T) = closedPositions T"
  "activityFeed (savePositions e T) = activityFeed T"
  by (simp_all add: savePositions_def)

lemma written_savePositions: "writeOk e \<Longrightarrow> written (savePositions e T)"
  by (simp add: written_def savePositions_def)

lemma written_logActivity: "written (logActivity a T) = written T"
  by (simp add: written_def split: option.splits)

lemma allFinite_logActivity: "allFinite (logActivity a T) = allFinite T"
  by (simp add: allFinite_def)

lemma allFinite_savePositions: "allFinite (savePositions e T) = allFinite T"
  by (simp add: allFinite_def)

lemma ethOpened_position: "map_of (positions ethOpened) ''ETH/USD'' = Some ethPosition"
  by (simp add: scenario_defs ethPosition_def Let_def)

lemma ethOpened_other: "map_of (positions ethOpened) ''BTC/USD'' = None"
  by (simp add: scenario_defs Let_def)

lemma ethOpened_eq:
  "ethOpened =
     \<lparr>positions = [(''ETH/USD'', ethPosition)], closedPositions = [],
      activityFeed = [\<lparr>timestamp = Fin 0, feedPair = ''ETH/USD'', action = ENTRY,
                       details = PriceVolume (Fin 3000) (Fin 1)\<rparr>],
      profitLockGivebackPct = Fin 0.5, accountBalance = Fin 1000,
      diskFile = Some \<lparr>snapOpen = [stringifyPosition ethPosition], snapClosed = [],
                        snapTimestamp = Some 0\<rparr>\<rparr>"
  by (simp add: scenario_defs ethPosition_def Let_def)

lemma ethPosition_finite: "finiteNumbers ethPosition"
  by (simp add: finiteNumbers_def ethPosition_def)

section \<open>The erosion cap on the first scenario\<close>

text \<open>
  Claim C1 as the specification states it fails: after the refreshes at 3015 and at 3005
  \<^verbatim>\<open>checkErosionCap\<close> does not return true.
\<close>

theorem checkErosionCap_scenario_not_true:
  "\<not> fst (checkErosionCap (scenarioEnv 2)
         (updatePosition (updatePosition ethOpened ''ETH/USD'' (Fin 3015)) ''ETH/USD'' (Fin 3005))
         ''ETH/USD'')"
  by (simp add: js_defs scenario_defs refresh_defs erosion_defs fin_small Let_def)

text \<open>
  Claim C1, amended. The refresh at 3015 gives currentProfit 15, profitPct 0.5, peakProfit 15
  and erosionUsed 0; the refresh at 3005 gives currentProfit 5, peakProfit 15, erosionUsed 10
  and a giveback ratio of 2/3. The peak is 0.5 percent of the cost basis 3000, below the floor
  of 1 percent, so \<^verbatim>\<open>checkErosionCap\<close> with a limit of 0.5 returns false. With the same
  giveback ratio on a peak of 1 percent (refreshes at 3030 and 3010) it returns true.
\<close>

theorem checkErosionCap_scenario:
  "map_option (\<lambda>p. (currentProfit p, profitPct p, peakProfit p, erosionUsed p))
     (getPosition (updatePosition ethOpened ''ETH/USD'' (Fin 3015)) ''ETH/USD'')
     = Some (Fin 15, Fin 0.5, Fin 15, Fin 0) \<and>
   map_option (\<lambda>p. (currentProfit p, peakProfit p, erosionUsed p, peakProfitPctOf p,
                     jdiv (erosionUsed p) (peakProfit p)))
     (getPosition (updatePosition (updatePosition ethOpened ''ETH/USD'' (Fin 3015))
        ''ETH/USD'' (Fin 3005)) ''ETH/USD'')
     = Some (Fin 5, Fin 15, Fin 10, Fin 0.5, Fin (2 / 3)) \<and>
   fst (checkErosionCap (scenarioEnv 2)
         (updatePosition (updatePosition ethOpened ''ETH/USD'' (Fin 3015)) ''ETH/USD'' (Fin 3005))
         ''ETH/USD'') = False \<and>
   fst (checkErosionCap (scenarioEnv 2)
         (updatePosition (updatePosition ethOpened ''ETH/USD'' (Fin 3030)) ''ETH/USD'' (Fin 3010))
         ''ETH/USD'') = True"
  by (simp add: js_defs scenario_defs refresh_defs erosion_defs getPosition_def fin_small Let_def)

section \<open>Write-through persistence\<close>

text \<open>
  Claim C2 as the specification states it fails for the refresh: after
  \<^verbatim>\<open>updatePosition\<close> at 3015 every number in memory is finite, and the document on disk is
  not the JSON text of the positions in memory: it still holds the position as it was
  opened.
\<close>

theorem updatePosition_not_persisted:
  "allFinite (updatePosition ethOpened ''ETH/USD'' (Fin 3015)) \<and>
   \<not> written (updatePosition ethOpened ''ETH/USD'' (Fin 3015)) \<and>
   \<not> inSync (updatePosition ethOpened ''ETH/USD'' (Fin 3015))"
  by (simp add: inSync_def written_def allFinite_def finiteNumbers_def js_defs scenario_defs
      refresh_defs stringifyPosition_def fin_small Let_def)

text \<open>
  Claim C2, amended. When the write succeeds, \<^verbatim>\<open>addPosition\<close> of a new pair,
  \<^verbatim>\<open>addPyramidLevel\<close> that returns true and \<^verbatim>\<open>closePosition\<close> of an open pair leave
  on disk the JSON text of the open and closed positions of the tracker they leave in
  memory. That document holds the positions number for number when all their numbers are
  finite; a NaN or an infinity in memory is \<^verbatim>\<open>null\<close> on disk. \<^verbatim>\<open>updatePosition\<close> writes
  nothing: the document on disk is the one from before.
\<close>

theorem mutations_write_through:
  assumes "writeOk e"
  shows "(map_of (positions T) new = None \<longrightarrow>
            written (addPosition e T new price vol sl pt ai adxAtEntry rg cap)) \<and>
         (map_of (positions T) new = None \<and>
          allFinite (addPosition e T new price vol sl pt ai adxAtEntry rg cap) \<longrightarrow>
            inSync (addPosition e T new price vol sl pt ai adxAtEntry rg cap)) \<and>
         (fst (addPyramidLevel e T pr lv price vol conf) \<longrightarrow>
            written (snd (addPyramidLevel e T pr lv price vol conf))) \<and>
         (fst (addPyramidLevel e T pr lv price vol conf) \<and>
          allFinite (snd (addPyramidLevel e T pr lv price vol conf)) \<longrightarrow>
            inSync (snd (addPyramidLevel e T pr lv price vol conf))) \<and>
         (map_of (positions T) pr \<noteq> None \<longrightarrow> written (closePosition e T pr price reason)) \<and>
         (map_of (positions T) pr \<noteq> None \<and> allFinite (closePosition e T pr price reason) \<longrightarrow>
            inSync (closePosition e T pr price reason)) \<and>
         diskFile (updatePosition T pr price) = diskFile T"
proof -
  have a: "written (addPosition e T new price vol sl pt ai adxAtEntry rg cap)"
    if "map_of (positions T) new = None"
    using that assms
    by (simp add: addPosition_def Let_def written_logActivity written_savePositions)
  have b: "written (snd (addPyramidLevel e T pr lv price vol conf))"
    if "fst (addPyramidLevel e T pr lv price vol conf)"
    using that assms
    by (auto simp: addPyramidLevel_def Let_def written_logActivity written_savePositions
        split: option.splits if_splits)
  have c: "written (closePosition e T pr price reason)" if "map_of (positions T) pr \<noteq> None"
    using that assms
    by (auto simp: closePosition_def Let_def written_savePositions split: option.splits)
  have d: "diskFile (updatePosition T pr price) = diskFile T"
    by (simp add: updatePosition_def split: option.splits)
  from a b c d show ?thesis
    by (simp add: inSync_def)
qed

text \<open>
  Claim C2, amended, on the first scenario: BTC/USD is opened, and ETH/USD gets a level 1,
  is closed, is refreshed. All numbers are finite, and disk and memory agree after each of
  the first three.
\<close>

theorem mutations_write_through_witness:
  "writeOk (scenarioEnv 1) \<and>
   map_of (positions ethOpened) ''BTC/USD'' = None \<and>
   allFinite (addPosition (scenarioEnv 1) ethOpened ''BTC/USD'' (Fin 3135) (Fin 0.35) (Fin 2900)
                (Fin 3200) scenarioDecision (Fin 25) Strong (Fin 0.008)) \<and>
   inSync (addPosition (scenarioEnv 1) ethOpened ''BTC/USD'' (Fin 3135) (Fin 0.35) (Fin 2900)
             (Fin 3200) scenarioDecision (Fin 25) Strong (Fin 0.008)) \<and>
   fst (addPyramidLevel (scenarioEnv 1) ethOpened ''ETH/USD'' L1 (Fin 3135) (Fin 0.35) (Fin 90)) \<and>
   allFinite (snd (addPyramidLevel (scenarioEnv 1) ethOpened ''ETH/USD'' L1 (Fin 3135) (Fin 0.35)
                     (Fin 90))) \<and>
   inSync (snd (addPyramidLevel (scenarioEnv 1) ethOpened ''ETH/USD'' L1 (Fin 3135) (Fin 0.35)
                  (Fin 90))) \<and>
   map_of (positions ethOpened) ''ETH/USD'' \<noteq> None \<and>
   allFinite (closePosition (scenarioEnv 1) ethOpened ''ETH/USD'' (Fin 3135) ''Profit Target'') \<and>
   inSync (closePosition (scenarioEnv 1) ethOpened ''ETH/USD'' (Fin 3135) ''Profit Target'') \<and>
   diskFile (updatePosition ethOpened ''ETH/USD'' (Fin 3135)) = diskFile ethOpened"
proof -
  have h1: "writeOk (scenarioEnv 1)"
    by (simp add: scenarioEnv_def)
  have h2: "map_of (positions ethOpened) ''BTC/USD'' = None"
    by (rule ethOpened_other)
  have h3: "fst (addPyramidLevel (scenarioEnv 1) ethOpened ''ETH/USD'' L1 (Fin 3135) (Fin 0.35)
                   (Fin 90))"
    by (simp add: addPyramidLevel_def ethOpened_position Let_def) (simp add: ethPosition_def)
  have h4: "map_of (positions ethOpened) ''ETH/USD'' \<noteq> None"
    by (simp add: ethOpened_position)
  have f1: "allFinite (addPosition (scenarioEnv 1) ethOpened ''BTC/USD'' (Fin 3135) (Fin 0.35)
                (Fin 2900) (Fin 3200) scenarioDecision (Fin 25) Strong (Fin 0.008))"
    by (simp add: addPosition_def ethOpened_other Let_def allFinite_logActivity
          allFinite_savePositions)
       (simp add: allFinite_def ethOpened_eq finiteNumbers_def scenarioEnv_def ethPosition_def)
  have f2: "allFinite (snd (addPyramidLevel (scenarioEnv 1) ethOpened ''ETH/USD'' L1 (Fin 3135)
                     (Fin 0.35) (Fin 90)))"
    by (simp add: addPyramidLevel_def ethOpened_position Let_def)
       (simp add: allFinite_logActivity allFinite_savePositions allFinite_def ethOpened_eq
          finiteNumbers_def finiteLevel_def scenarioEnv_def ethPosition_def fin_small)
  have f3: "allFinite (closePosition (scenarioEnv 1) ethOpened ''ETH/USD'' (Fin 3135)
                         ''Profit Target'')"
    by (simp add: closePosition_def ethOpened_position Let_def allFinite_savePositions)
       (simp add: allFinite_def ethOpened_eq closedPosition_def finiteNumbers_def scenarioEnv_def
          ethPosition_def jsub_Fin fin_small Let_def)
  note t = mutations_write_through [OF h1, where T = ethOpened and new = "''BTC/USD''"
      and pr = "''ETH/USD''" and price = "Fin 3135" and vol = "Fin 0.35" and sl = "Fin 2900"
      and pt = "Fin 3200" and ai = scenarioDecision and adxAtEntry = "Fin 25" and rg = Strong
      and cap = "Fin 0.008" and lv = L1 and conf = "Fin 90" and reason = "''Profit Target''"]
  from t h1 h2 h3 h4 f1 f2 f3 show ?thesis by blast
qed

section \<open>Pyramid levels\<close>

text \<open>
  Claim C3 as the specification states it fails in its second half: on the position of the
  first scenario, which has no level 1, \<^verbatim>\<open>addPyramidLevel\<close> for level 2 does not return
  false.
\<close>

theorem addPyramidLevel_L2_first_not_false:
  "\<not> (fst (addPyramidLevel (scenarioEnv 1) ethOpened ''ETH/USD'' L2 (Fin 3100) (Fin 0.5) (Fin 90))
        = False)"
  by (simp add: addPyramidLevel_def scenario_defs Let_def)

text \<open>
  Claim C3, amended. For an open position with no pyramid levels, \<^verbatim>\<open>addPyramidLevel\<close>
  for level 1 returns true, a second call for level 1 returns false and leaves the tracker
  as it is, and the position then has the one level 1. \<^verbatim>\<open>addPyramidLevel\<close> does not check
  the order of the levels: for level 2 on that position it returns true and appends the
  level. The order is the caller's, through \<^verbatim>\<open>isReadyForL2\<close>, which is false while no
  level is activated.
\<close>

theorem addPyramidLevel_duplicate_and_order:
  assumes "map_of (positions T) pr = Some p"
    and "pyramidLevels p = []" and "pyramidLevelsActivated p = 0"
  shows "fst (addPyramidLevel e T pr L1 price vol conf) \<and>
         addPyramidLevel e' (snd (addPyramidLevel e T pr L1 price vol conf)) pr L1 price' vol' conf'
           = (False, snd (addPyramidLevel e T pr L1 price vol conf)) \<and>
         map_option (\<lambda>q. map level (pyramidLevels q))
           (map_of (positions (snd (addPyramidLevel e T pr L1 price vol conf))) pr) = Some [L1] \<and>
         fst (addPyramidLevel e T pr L2 price vol conf) \<and>
         map_option (\<lambda>q. map level (pyramidLevels q))
           (map_of (positions (snd (addPyramidLevel e T pr L2 price vol conf))) pr) = Some [L2] \<and>
         \<not> isReadyForL2 T pr profit l2TriggerPct"
  using assms
  by (simp add: addPyramidLevel_def isReadyForL2_def Let_def update_conv')

text \<open>Claim C3, amended, on the position of the first scenario.\<close>

theorem addPyramidLevel_duplicate_and_order_witness:
  "map_of (positions ethOpened) ''ETH/USD'' = Some ethPosition \<and>
   pyramidLevels ethPosition = [] \<and> pyramidLevelsActivated ethPosition = 0 \<and>
   fst (addPyramidLevel (scenarioEnv 1) ethOpened ''ETH/USD'' L1 (Fin 3135) (Fin 0.35) (Fin 90)) \<and>
   addPyramidLevel (scenarioEnv 2)
       (snd (addPyramidLevel (scenarioEnv 1) ethOpened ''ETH/USD'' L1 (Fin 3135) (Fin 0.35) (Fin 90)))
       ''ETH/USD'' L1 (Fin 3140) (Fin 0.35) (Fin 91)
     = (False,
        snd (addPyramidLevel (scenarioEnv 1) ethOpened ''ETH/USD'' L1 (Fin 3135) (Fin 0.35) (Fin 90))) \<and>
   fst (addPyramidLevel (scenarioEnv 1) ethOpened ''ETH/USD'' L2 (Fin 3135) (Fin 0.35) (Fin 90)) \<and>
   \<not> isReadyForL2 ethOpened ''ETH/USD'' (Fin 0.09) (Fin 0.08)"
proof -
  have h1: "map_of (positions ethOpened) ''ETH/USD'' = Some ethPosition"
    by (rule ethOpened_position)
  have h2: "pyramidLevels ethPosition = []" and h3: "pyramidLevelsActivated ethPosition = 0"
    by (simp_all add: ethPosition_def)
  note t = addPyramidLevel_duplicate_and_order [OF h1 h2 h3, where e = "scenarioEnv 1"
      and price = "Fin 3135" and vol = "Fin 0.35" and conf = "Fin 90" and e' = "scenarioEnv 2"
      and price' = "Fin 3140" and vol' = "Fin 0.35" and conf' = "Fin 91" and profit = "Fin 0.09"
      and l2TriggerPct = "Fin 0.08"]
  from t h1 h2 h3 show ?thesis by blast
qed

section \<open>Peak and erosion over a sequence of refreshes\<close>

lemma refreshPosition_peak:
  "peakProfit (refreshPosition p x) =
     (if jgt (currentProfit (refreshPosition p x)) (peakProfit p)
      then currentProfit (refreshPosition p x) else peakProfit p)"
  by (simp add: refreshPosition_def Let_def)

lemma refreshPosition_erosion:
  "erosionUsed (refreshPosition p x) =
     (if jgt (currentProfit (refreshPosition p x)) (peakProfit p)
      then Fin 0 else jsub (peakProfit p) (currentProfit (refreshPosition p x)))"
  by (simp add: refreshPosition_def Let_def)

lemma jle_refl: "x \<noteq> NaN \<Longrightarrow> jle x x"
  by (cases x) (simp_all add: jle_def)

lemma jle_trans: "jle a b \<Longrightarrow> jle b c \<Longrightarrow> jle a c"
  by (cases a; cases b; cases c) (auto simp: jle_def split: if_splits)

lemma jlt_not_NaN: "jlt a b \<Longrightarrow> a \<noteq> NaN \<and> b \<noteq> NaN"
  by (cases a; cases b) simp_all

lemma refreshPosition_peak_step:
  assumes "peakProfit p \<noteq> NaN"
  shows "peakProfit (refreshPosition p x) \<noteq> NaN \<and>
         jle (peakProfit p) (peakProfit (refreshPosition p x))"
proof (cases "jgt (currentProfit (refreshPosition p x)) (peakProfit p)")
  case True
  then have lt: "jlt (peakProfit p) (currentProfit (refreshPosition p x))"
    by (simp add: jgt_def)
  with jlt_not_NaN [OF lt] True show ?thesis
    by (simp add: refreshPosition_peak jle_def)
next
  case False
  with assms show ?thesis
    by (simp add: refreshPosition_peak jle_refl)
qed

lemma refreshes_peak_not_NaN:
  "peakProfit p \<noteq> NaN \<Longrightarrow> peakProfit (foldl refreshPosition p xs) \<noteq> NaN"
  by (induction xs arbitrary: p) (simp_all add: refreshPosition_peak_step)

lemma refreshes_peak_mono:
  "peakProfit p \<noteq> NaN \<Longrightarrow> jle (peakProfit p) (peakProfit (foldl refreshPosition p zs))"
proof (induction zs arbitrary: p)
  case Nil
  then show ?case by (simp add: jle_refl)
next
  case (Cons z zs)
  from refreshPosition_peak_step [OF Cons.prems, of z]
  have n: "peakProfit (refreshPosition p z) \<noteq> NaN"
    and 1: "jle (peakProfit p) (peakProfit (refreshPosition p z))"
    by simp_all
  from Cons.IH [OF n]
  have 2: "jle (peakProfit (refreshPosition p z)) (peakProfit (foldl refreshPosition p (z # zs)))"
    by simp
  from jle_trans [OF 1 2] show ?case .
qed

lemma erosion_nonnegative:
  assumes "k \<noteq> NaN" and "\<not> jgt (Fin u) k"
  shows "jge (jsub k (Fin u)) (Fin 0)"
proof (cases k)
  case (Fin a)
  with assms(2) have "0 \<le> a - u" by simp
  then show ?thesis
    using overflowAt_pos
    by (cases "a - u" rule: fin_cases) (simp_all add: Fin jsub_Fin jge_def jle_def)
next
  case PInf
  then show ?thesis by (simp add: jsub_def jge_def jle_def)
next
  case NInf
  with assms(2) show ?thesis by (simp add: jgt_def)
next
  case NaN
  with assms(1) show ?thesis by simp
qed

lemma refreshPosition_erosion_step:
  assumes "peakProfit p \<noteq> NaN" and "isFin (currentProfit (refreshPosition p x))"
  shows "jge (erosionUsed (refreshPosition p x)) (Fin 0)"
proof -
  from assms(2) obtain u where u: "currentProfit (refreshPosition p x) = Fin u"
    by (auto simp: isFin_conv)
  show ?thesis
  proof (cases "jgt (Fin u) (peakProfit p)")
    case True
    then show ?thesis by (simp add: refreshPosition_erosion u)
  next
    case False
    from erosion_nonnegative [OF assms(1) False] False show ?thesis
      by (simp add: refreshPosition_erosion u)
  qed
qed

lemma refreshAll_position:
  "map_of (positions T) pr = Some p \<Longrightarrow>
   map_of (positions (refreshAll T pr xs)) pr = Some (foldl refreshPosition p xs)"
  unfolding refreshAll_def
  by (induction xs arbitrary: T p) (simp_all add: updatePosition_def update_conv')

lemma refreshPosition_static:
  "entryPrice (refreshPosition p x) = entryPrice p"
  "volume (refreshPosition p x) = volume p"
  "pyramidLevels (refreshPosition p x) = pyramidLevels p"
  by (simp_all add: refreshPosition_def Let_def)

lemma refreshPosition_no_levels:
  "pyramidLevels p = [] \<Longrightarrow>
   currentProfit (refreshPosition p x)
     = jadd (Fin 0) (jmul (jsub x (entryPrice p)) (volume p))"
  by (simp add: refreshPosition_def Let_def)

lemma bigOpened_position: "map_of (positions bigOpened) ''ETH/USD'' = Some bigPosition"
  unfolding bigOpened_def bigPosition_def
  by (simp add: scenarioEnv_def scenarioDecision_def newTracker_def addPosition_def Let_def
      del: power_numeral)

lemma bigPosition_refreshed:
  assumes "entryPrice q = Fin 1" and "volume q = Fin (10 ^ 308)" and "pyramidLevels q = []"
  shows "currentProfit (refreshPosition q (Fin 11)) = PInf"
proof -
  have "jsub (Fin 11) (Fin 1) = Fin 10"
    by (simp add: jsub_Fin fin_small)
  moreover have "jmul (Fin 10) (Fin (10 ^ 308)) = PInf"
    by (simp add: fin_huge)
  ultimately show ?thesis
    by (simp only: refreshPosition_no_levels [OF assms(3)] assms(1,2) jadd.simps)
qed

text \<open>
  Claim C4 as the specification states it fails when the profit overflows: a pair opened at
  1 with a volume of \<open>10\<^sup>3\<^sup>0\<^sup>8\<close> and refreshed twice at the finite price 11 has a
  currentProfit and a peakProfit of \<open>\<infinity>\<close>, and its erosionUsed is \<open>\<infinity> - \<infinity>\<close>, which is NaN
  and not \<open>\<ge> 0\<close>.
\<close>

theorem refresh_overflow_erosion_NaN:
  "getPosition (refreshAll bigOpened ''ETH/USD'' [Fin 11, Fin 11]) ''ETH/USD''
     = Some (foldl refreshPosition bigPosition [Fin 11, Fin 11]) \<and>
   list_all isFin [Fin 11, Fin 11] \<and>
   currentProfit (foldl refreshPosition bigPosition [Fin 11, Fin 11]) = PInf \<and>
   peakProfit (foldl refreshPosition bigPosition [Fin 11, Fin 11]) = PInf \<and>
   erosionUsed (foldl refreshPosition bigPosition [Fin 11, Fin 11]) = NaN \<and>
   \<not> jge (erosionUsed (foldl refreshPosition bigPosition [Fin 11, Fin 11])) (Fin 0)"
proof -
  let ?q = "refreshPosition bigPosition (Fin 11)"
  have b: "entryPrice bigPosition = Fin 1" "volume bigPosition = Fin (10 ^ 308)"
    "pyramidLevels bigPosition = []" "peakProfit bigPosition = Fin 0"
    unfolding bigPosition_def by (simp_all del: power_numeral)
  have q: "entryPrice ?q = Fin 1" "volume ?q = Fin (10 ^ 308)" "pyramidLevels ?q = []"
    by (simp_all only: refreshPosition_static b)
  have c1: "currentProfit ?q = PInf"
    using b(1,2,3) by (rule bigPosition_refreshed)
  have k1: "peakProfit ?q = PInf"
    by (simp only: refreshPosition_peak [of bigPosition "Fin 11"] c1 b(4)) (simp add: jgt_def)
  have c2: "currentProfit (refreshPosition ?q (Fin 11)) = PInf"
    using q by (rule bigPosition_refreshed)
  have k2: "peakProfit (refreshPosition ?q (Fin 11)) = PInf"
    by (simp only: refreshPosition_peak [of ?q "Fin 11"] c2 k1) (simp add: jgt_def)
  have e2: "erosionUsed (refreshPosition ?q (Fin 11)) = NaN"
    by (simp only: refreshPosition_erosion [of ?q "Fin 11"] c2 k1) (simp add: jgt_def jsub_def)
  have g: "getPosition (refreshAll bigOpened ''ETH/USD'' [Fin 11, Fin 11]) ''ETH/USD''
     = Some (foldl refreshPosition bigPosition [Fin 11, Fin 11])"
    by (simp only: getPosition_def refreshAll_position [OF bigOpened_position])
  have f: "foldl refreshPosition bigPosition [Fin 11, Fin 11] = refreshPosition ?q (Fin 11)"
    by simp
  have n: "\<not> jge NaN (Fin 0)"
    by (simp add: jge_def jle_def)
  show ?thesis
    unfolding f c2 k2 e2 using g [unfolded f] n by simp
qed

text \<open>
  Claim C4, amended. Take an open position whose peakProfit is not NaN, and refresh it at
  any prices \<open>xs\<close>, then at \<open>y\<close>; \<open>zs\<close> are any further prices after \<open>xs\<close>. The tracker
  then holds the position refreshed at each price in turn; its peakProfit after \<open>xs\<close> is at
  most its peakProfit after any continuation; erosionUsed after a refresh is at least 0
  when the currentProfit of that refresh is a finite number; and erosionUsed is 0 after a
  refresh whose currentProfit exceeds the peakProfit from before it.
\<close>

theorem refresh_peak_monotone_erosion_nonnegative:
  assumes "map_of (positions T) pr = Some p" and "peakProfit p \<noteq> NaN"
  shows "getPosition (refreshAll T pr xs) pr = Some (foldl refreshPosition p xs) \<and>
         jle (peakProfit (foldl refreshPosition p xs))
             (peakProfit (foldl refreshPosition p (xs @ zs))) \<and>
         (isFin (currentProfit (foldl refreshPosition p (xs @ [y]))) \<longrightarrow>
            jge (erosionUsed (foldl refreshPosition p (xs @ [y]))) (Fin 0)) \<and>
         (jgt (currentProfit (foldl refreshPosition p (xs @ [y])))
              (peakProfit (foldl refreshPosition p xs)) \<longrightarrow>
            erosionUsed (foldl refreshPosition p (xs @ [y])) = Fin 0)"
proof -
  have n: "peakProfit (foldl refreshPosition p xs) \<noteq> NaN"
    using assms(2) by (rule refreshes_peak_not_NaN)
  have 1: "getPosition (refreshAll T pr xs) pr = Some (foldl refreshPosition p xs)"
    using assms(1) by (simp add: getPosition_def refreshAll_position)
  have 2: "jle (peakProfit (foldl refreshPosition p xs))
             (peakProfit (foldl refreshPosition p (xs @ zs)))"
    using refreshes_peak_mono [OF n, of zs] by simp
  have 3: "isFin (currentProfit (foldl refreshPosition p (xs @ [y]))) \<longrightarrow>
            jge (erosionUsed (foldl refreshPosition p (xs @ [y]))) (Fin 0)"
    using refreshPosition_erosion_step [OF n, of y] by simp
  have 4: "jgt (currentProfit (foldl refreshPosition p (xs @ [y])))
              (peakProfit (foldl refreshPosition p xs)) \<longrightarrow>
            erosionUsed (foldl refreshPosition p (xs @ [y])) = Fin 0"
    by (simp add: refreshPosition_erosion)
  from 1 2 3 4 show ?thesis by blast
qed

text \<open>
  Claim C4, amended, on the first scenario: refreshed at 3015, then at 3020 (a new peak) or
  at 3005.
\<close>

theorem refresh_peak_monotone_erosion_nonnegative_witness:
  "map_of (positions ethOpened) ''ETH/USD'' = Some ethPosition \<and>
   peakProfit ethPosition \<noteq> NaN \<and>
   getPosition (refreshAll ethOpened ''ETH/USD'' [Fin 3015]) ''ETH/USD''
     = Some (foldl refreshPosition ethPosition [Fin 3015]) \<and>
   jle (peakProfit (foldl refreshPosition ethPosition [Fin 3015]))
       (peakProfit (foldl refreshPosition ethPosition ([Fin 3015] @ [Fin 3005]))) \<and>
   isFin (currentProfit (foldl refreshPosition ethPosition ([Fin 3015] @ [Fin 3020]))) \<and>
   jge (erosionUsed (foldl refreshPosition ethPosition ([Fin 3015] @ [Fin 3020]))) (Fin 0) \<and>
   jgt (currentProfit (foldl refreshPosition ethPosition ([Fin 3015] @ [Fin 3020])))
       (peakProfit (foldl refreshPosition ethPosition [Fin 3015])) \<and>
   erosionUsed (foldl refreshPosition ethPosition ([Fin 3015] @ [Fin 3020])) = Fin 0"
proof -
  have h1: "map_of (positions ethOpened) ''ETH/USD'' = Some ethPosition"
    by (rule ethOpened_position)
  have h2: "peakProfit ethPosition \<noteq> NaN"
    by (simp add: ethPosition_def)
  have h3: "isFin (currentProfit (foldl refreshPosition ethPosition ([Fin 3015] @ [Fin 3020])))"
    and h4: "jgt (currentProfit (foldl refreshPosition ethPosition ([Fin 3015] @ [Fin 3020])))
       (peakProfit (foldl refreshPosition ethPosition [Fin 3015]))"
    by (simp_all add: refreshPosition_def ethPosition_def Let_def jsub_Fin fin_small)
  note t = refresh_peak_monotone_erosion_nonnegative [OF h1 h2, where xs = "[Fin 3015]"
      and y = "Fin 3020" and zs = "[Fin 3005]"]
  from t h1 h2 h3 h4 show ?thesis by blast
qed

section \<open>The underwater exit\<close>

lemma lossOpened_position: "map_of (positions lossOpened) ''SOL/USD'' = Some lossPosition"
  by (simp add: lossOpened_def lossPosition_def scenarioEnv_def scenarioDecision_def newTracker_def
      addPosition_def savePositions_def logActivity_def maxActivityFeedSize_def
      refresh_defs jsub_Fin fin_small Let_def)

lemma not_jgt: "x \<noteq> NaN \<Longrightarrow> y \<noteq> NaN \<Longrightarrow> (\<not> jgt x y) = jle x y"
  by (cases x; cases y) (auto simp: jgt_def jle_def)

lemma not_jge: "x \<noteq> NaN \<Longrightarrow> y \<noteq> NaN \<Longrightarrow> (\<not> jge x y) = jlt x y"
  by (cases x; cases y) (auto simp: jge_def jle_def)

lemma not_jlt: "x \<noteq> NaN \<Longrightarrow> y \<noteq> NaN \<Longrightarrow> (\<not> jlt x y) = jge x y"
  by (cases x; cases y) (auto simp: jge_def jle_def)

lemma checkUnderwaterExit_result:
  "map_of (positions T) pr = Some p \<Longrightarrow>
   fst (checkUnderwaterExit e T pr cfg) =
     (\<not> jgt (peakProfit p) (Fin 0) \<and> \<not> jge (currentProfit p) (Fin 0) \<and>
      \<not> jlt (jdiv (jsub (now e) (entryTime p)) (Fin 60000)) (underwaterExitMinTimeMinutes cfg) \<and>
      jlt (profitPct p) (jmul (underwaterExitThresholdPct cfg) (Fin 100)))"
  by (simp add: checkUnderwaterExit_def Let_def)

lemma age_not_NaN: "jdiv (jsub (Fin a) (Fin b)) (Fin 60000) \<noteq> NaN"
  by (cases "a - b" rule: fin_cases) (simp_all add: jsub_Fin)

lemma scenario_age:
  "jlt (jdiv (jsub (Fin t) (Fin 0)) (Fin 60000)) (Fin 15) = (t < 15 * 60000)"
proof (cases t rule: fin_cases)
  case 1
  with overflowAt_large show ?thesis by (simp add: jsub_Fin)
next
  case 2
  with overflowAt_large show ?thesis by (simp add: jsub_Fin)
next
  case 3
  then have "\<bar>t / 60000\<bar> < overflowAt" by (simp add: abs_if split: if_splits)
  then have "fin (t / 60000) = Fin (t / 60000)" by (rule fin_in_range)
  with 3 show ?thesis by (simp add: jsub_Fin)
qed

text \<open>
  Claim C5. For an open position whose peakProfit and currentProfit are numbers (not NaN),
  with finite clock and entry time and a minimum time that is a number,
  \<^verbatim>\<open>checkUnderwaterExit\<close> returns true exactly when peakProfit \<open>\<le> 0\<close>, currentProfit \<open>< 0\<close>,
  the age in minutes is at least the configured minimum, and profitPct is below the
  configured threshold times 100. In the second scenario (cost basis 1000, currentProfit -9,
  profitPct -0.9, threshold -0.8 percent, 15 minutes) it returns false at every time before
  15 minutes after the entry and true from then on.
\<close>

theorem checkUnderwaterExit_iff:
  assumes "map_of (positions T) pr = Some p"
    and "peakProfit p \<noteq> NaN" and "currentProfit p \<noteq> NaN"
    and "isFin (now e)" and "isFin (entryTime p)" and "underwaterExitMinTimeMinutes cfg \<noteq> NaN"
  shows "fst (checkUnderwaterExit e T pr cfg) =
           (jle (peakProfit p) (Fin 0) \<and> jlt (currentProfit p) (Fin 0) \<and>
            jge (jdiv (jsub (now e) (entryTime p)) (Fin 60000)) (underwaterExitMinTimeMinutes cfg) \<and>
            jlt (profitPct p) (jmul (underwaterExitThresholdPct cfg) (Fin 100))) \<and>
         map_option (\<lambda>q. (totalCostOf q, currentProfit q, profitPct q, peakProfit q))
           (getPosition lossOpened ''SOL/USD'') = Some (Fin 1000, Fin (- 9), Fin (- 0.9), Fin 0) \<and>
         jmul (underwaterExitThresholdPct underwaterConfig) (Fin 100) = Fin (- 0.8) \<and>
         (\<forall>t. fst (checkUnderwaterExit (scenarioEnv t) lossOpened ''SOL/USD'' underwaterConfig)
                = (15 * 60000 \<le> t))"
proof -
  from assms(4,5) obtain a b where ab: "now e = Fin a" "entryTime p = Fin b"
    by (auto simp: isFin_conv)
  have age: "jdiv (jsub (now e) (entryTime p)) (Fin 60000) \<noteq> NaN"
    by (simp only: ab age_not_NaN not_False_eq_True)
  have 1: "fst (checkUnderwaterExit e T pr cfg) =
           (jle (peakProfit p) (Fin 0) \<and> jlt (currentProfit p) (Fin 0) \<and>
            jge (jdiv (jsub (now e) (entryTime p)) (Fin 60000)) (underwaterExitMinTimeMinutes cfg) \<and>
            jlt (profitPct p) (jmul (underwaterExitThresholdPct cfg) (Fin 100)))"
    using assms(2,3,6) age
    by (simp add: checkUnderwaterExit_result [OF assms(1)] not_jgt not_jge not_jlt)
  have 2: "map_option (\<lambda>q. (totalCostOf q, currentProfit q, profitPct q, peakProfit q))
           (getPosition lossOpened ''SOL/USD'') = Some (Fin 1000, Fin (- 9), Fin (- 0.9), Fin 0)"
    by (simp add: getPosition_def lossOpened_position)
       (simp add: lossPosition_def totalCostOf_def fin_small)
  have 3: "jmul (underwaterExitThresholdPct underwaterConfig) (Fin 100) = Fin (- 0.8)"
    by (simp add: underwaterConfig_def fin_small)
  have 4: "fst (checkUnderwaterExit (scenarioEnv t) lossOpened ''SOL/USD'' underwaterConfig)
                = (15 * 60000 \<le> t)" for t
  proof -
    have "fst (checkUnderwaterExit (scenarioEnv t) lossOpened ''SOL/USD'' underwaterConfig)
            = (\<not> jlt (jdiv (jsub (Fin t) (Fin 0)) (Fin 60000)) (Fin 15))"
      by (simp add: checkUnderwaterExit_result [OF lossOpened_position])
         (simp add: lossPosition_def underwaterConfig_def scenarioEnv_def jge_def jle_def
            fin_small)
    then show ?thesis by (simp only: scenario_age) auto
  qed
  from 1 2 3 4 show ?thesis by blast
qed

text \<open>
  Claim C5 on the second scenario, 15 minutes after the entry: the four conditions hold and
  the check returns true.
\<close>

theorem checkUnderwaterExit_iff_witness:
  "map_of (positions lossOpened) ''SOL/USD'' = Some lossPosition \<and>
   peakProfit lossPosition \<noteq> NaN \<and> currentProfit lossPosition \<noteq> NaN \<and>
   isFin (now (scenarioEnv 900000)) \<and> isFin (entryTime lossPosition) \<and>
   underwaterExitMinTimeMinutes underwaterConfig \<noteq> NaN \<and>
   jle (peakProfit lossPosition) (Fin 0) \<and> jlt (currentProfit lossPosition) (Fin 0) \<and>
   jge (jdiv (jsub (now (scenarioEnv 900000)) (entryTime lossPosition)) (Fin 60000))
       (underwaterExitMinTimeMinutes underwaterConfig) \<and>
   jlt (profitPct lossPosition) (jmul (underwaterExitThresholdPct underwaterConfig) (Fin 100)) \<and>
   fst (checkUnderwaterExit (scenarioEnv 900000) lossOpened ''SOL/USD'' underwaterConfig)"
proof -
  have h1: "map_of (positions lossOpened) ''SOL/USD'' = Some lossPosition"
    by (rule lossOpened_position)
  have h2: "peakProfit lossPosition \<noteq> NaN" and h3: "currentProfit lossPosition \<noteq> NaN"
    and h5: "isFin (entryTime lossPosition)"
    by (simp_all add: lossPosition_def)
  have h4: "isFin (now (scenarioEnv 900000))"
    by (simp add: scenarioEnv_def)
  have h6: "underwaterExitMinTimeMinutes underwaterConfig \<noteq> NaN"
    by (simp add: underwaterConfig_def)
  have c1: "jle (peakProfit lossPosition) (Fin 0)"
    and c2: "jlt (currentProfit lossPosition) (Fin 0)"
    and c3: "jge (jdiv (jsub (now (scenarioEnv 900000)) (entryTime lossPosition)) (Fin 60000))
               (underwaterExitMinTimeMinutes underwaterConfig)"
    and c4: "jlt (profitPct lossPosition)
               (jmul (underwaterExitThresholdPct underwaterConfig) (Fin 100))"
    by (simp_all add: lossPosition_def underwaterConfig_def scenarioEnv_def jsub_Fin fin_small)
  note t = checkUnderwaterExit_iff [OF h1 h2 h3 h4 h5 h6]
  from t c1 c2 c3 c4
  have "fst (checkUnderwaterExit (scenarioEnv 900000) lossOpened ''SOL/USD'' underwaterConfig)"
    by blast
  with h1 h2 h3 h4 h5 h6 c1 c2 c3 c4 show ?thesis by blast
qed

section \<open>The collapse of a profitable position\<close>

text \<open>
  Claim C6 as the specification states it fails at breakeven: the position of the first
  scenario, refreshed at 3030 and then at 3000, has a peak of 1 percent of its cost basis and
  a currentProfit of 0, which is \<open>\<le> 0\<close>, and \<^verbatim>\<open>checkProfitableCollapse\<close> does not return
  true.
\<close>

theorem checkProfitableCollapse_breakeven_not_true:
  "jge (peakProfitPctOf (foldl refreshPosition ethPosition [Fin 3030, Fin 3000])) (Fin 0.5) \<and>
   jle (currentProfit (foldl refreshPosition ethPosition [Fin 3030, Fin 3000])) (Fin 0) \<and>
   getPosition (refreshAll ethOpened ''ETH/USD'' [Fin 3030, Fin 3000]) ''ETH/USD''
     = Some (foldl refreshPosition ethPosition [Fin 3030, Fin 3000]) \<and>
   \<not> fst (checkProfitableCollapse (scenarioEnv 2)
            (refreshAll ethOpened ''ETH/USD'' [Fin 3030, Fin 3000]) ''ETH/USD'')"
  by (simp add: checkProfitableCollapse_def getPosition_def
        refreshAll_position [OF ethOpened_position] Let_def)
     (simp add: ethPosition_def refreshPosition_def peakProfitPctOf_def totalCostOf_def Let_def
        jsub_Fin fin_small)

lemma peakPct_threshold:
  assumes "0 < c"
  shows "jlt (jmul (jdiv (Fin k) (Fin c)) (Fin 100)) (Fin 0.5) = (k < 0.005 * c)"
proof -
  have big: "1 < overflowAt" using overflowAt_large by simp
  have eq: "(k / c * 100 < 1 / 2) = (k < 0.005 * c)"
    using assms by (simp add: field_simps)
  show ?thesis
  proof (cases "k / c" rule: fin_cases)
    case 1
    with big have "1 < k / c" by simp
    with assms have "c < k" by (simp add: field_simps)
    with assms 1 show ?thesis by simp
  next
    case 2
    with big have "k / c < 0" by simp
    with assms have "k < 0" by (simp add: field_simps)
    with assms 2 show ?thesis by simp
  next
    case 3
    show ?thesis
    proof (cases "k / c * 100" rule: fin_cases)
      case 1
      with big have "1 < k / c * 100" by simp
      with eq assms 3 1 show ?thesis by simp
    next
      case 2
      with big have "k / c * 100 < 1 / 2" by simp
      with eq assms 3 2 show ?thesis by simp
    next
      case c: 3
      with eq assms 3 show ?thesis by simp
    qed
  qed
qed

text \<open>
  Claim C6, amended. For an open position with finite cost basis \<open>c\<close> over all levels,
  finite peakProfit \<open>k\<close> and finite currentProfit \<open>u\<close>, \<^verbatim>\<open>checkProfitableCollapse\<close>
  returns true exactly when the cost basis is positive, the peak is at least 0.5 percent of
  it, and currentProfit is strictly below 0; at breakeven it returns false.
\<close>

theorem checkProfitableCollapse_iff:
  assumes "map_of (positions T) pr = Some p"
    and "totalCostOf p = Fin c" and "peakProfit p = Fin k" and "currentProfit p = Fin u"
  shows "fst (checkProfitableCollapse e T pr) = (0 < c \<and> 0.005 * c \<le> k \<and> u < 0)"
proof (cases "0 < c")
  case True
  from peakPct_threshold [OF True, of k] True assms show ?thesis
    by (auto simp: checkProfitableCollapse_def peakProfitPctOf_def Let_def jge_def jle_def)
next
  case False
  with assms show ?thesis
    by (auto simp: checkProfitableCollapse_def peakProfitPctOf_def Let_def)
qed

text \<open>
  Claim C6, amended, on the first scenario refreshed at 3030 and then at 2990: the check
  returns true.
\<close>

theorem checkProfitableCollapse_iff_witness:
  "map_of (positions (refreshAll ethOpened ''ETH/USD'' [Fin 3030, Fin 2990])) ''ETH/USD''
     = Some (foldl refreshPosition ethPosition [Fin 3030, Fin 2990]) \<and>
   totalCostOf (foldl refreshPosition ethPosition [Fin 3030, Fin 2990]) = Fin 3000 \<and>
   peakProfit (foldl refreshPosition ethPosition [Fin 3030, Fin 2990]) = Fin 30 \<and>
   currentProfit (foldl refreshPosition ethPosition [Fin 3030, Fin 2990]) = Fin (- 10) \<and>
   fst (checkProfitableCollapse (scenarioEnv 2)
          (refreshAll ethOpened ''ETH/USD'' [Fin 3030, Fin 2990]) ''ETH/USD'')"
proof -
  have h1: "map_of (positions (refreshAll ethOpened ''ETH/USD'' [Fin 3030, Fin 2990])) ''ETH/USD''
     = Some (foldl refreshPosition ethPosition [Fin 3030, Fin 2990])"
    by (rule refreshAll_position [OF ethOpened_position])
  have h2: "totalCostOf (foldl refreshPosition ethPosition [Fin 3030, Fin 2990]) = Fin 3000"
    and h3: "peakProfit (foldl refreshPosition ethPosition [Fin 3030, Fin 2990]) = Fin 30"
    and h4: "currentProfit (foldl refreshPosition ethPosition [Fin 3030, Fin 2990]) = Fin (- 10)"
    by (simp_all add: ethPosition_def refreshPosition_def totalCostOf_def Let_def jsub_Fin
        fin_small)
  note t = checkProfitableCollapse_iff [OF h1 h2 h3 h4, of "scenarioEnv 2"]
  from t have "fst (checkProfitableCollapse (scenarioEnv 2)
          (refreshAll ethOpened ''ETH/USD'' [Fin 3030, Fin 2990]) ''ETH/USD'')"
    by simp
  with h1 h2 h3 h4 show ?thesis by blast
qed

section \<open>Closing a position\<close>

lemma isFin_fin: "isFin (fin r) \<Longrightarrow> fin r = Fin r"
  by (cases r rule: fin_cases) simp_all

lemma jmul_finite_left: "isFin (jmul x (Fin b)) \<Longrightarrow> isFin x"
  by (cases x) (simp_all split: if_splits)

lemma jdiv_finite_left: "isFin (jdiv x (Fin b)) \<Longrightarrow> isFin x"
  by (cases x) (simp_all split: if_splits)

lemma close_formulas:
  assumes a: "a \<noteq> 0"
    and pct: "isFin (jmul (jdiv (jsub (Fin x) (Fin a)) (Fin a)) (Fin 100))"
    and cur: "isFin (jmul (jmul (Fin v) (jdiv (jsub (Fin x) (Fin a)) (Fin a))) (Fin a))"
  shows "jmul (jdiv (jsub (Fin x) (Fin a)) (Fin a)) (Fin 100) = Fin ((x - a) / a * 100)"
    and "jmul (jmul (Fin v) (jdiv (jsub (Fin x) (Fin a)) (Fin a))) (Fin a) = Fin ((x - a) * v)"
proof -
  from jmul_finite_left [OF pct] have f1: "isFin (jdiv (jsub (Fin x) (Fin a)) (Fin a))" .
  from jdiv_finite_left [OF f1] have "isFin (fin (x - a))" by (simp add: jsub_Fin)
  then have d: "jsub (Fin x) (Fin a) = Fin (x - a)" by (simp add: jsub_Fin isFin_fin)
  from f1 a have "isFin (fin ((x - a) / a))" by (simp add: d)
  then have fr: "jdiv (jsub (Fin x) (Fin a)) (Fin a) = Fin ((x - a) / a)"
    using a by (simp add: d isFin_fin)
  from pct have "isFin (fin ((x - a) / a * 100))" by (simp add: fr)
  then show "jmul (jdiv (jsub (Fin x) (Fin a)) (Fin a)) (Fin 100) = Fin ((x - a) / a * 100)"
    by (simp add: fr isFin_fin)
  from jmul_finite_left [OF cur] have "isFin (fin (v * ((x - a) / a)))" by (simp add: fr)
  then have m: "jmul (Fin v) (jdiv (jsub (Fin x) (Fin a)) (Fin a)) = Fin (v * ((x - a) / a))"
    by (simp add: fr isFin_fin)
  from cur have "isFin (fin (v * ((x - a) / a) * a))" by (simp add: m)
  then have "jmul (jmul (Fin v) (jdiv (jsub (Fin x) (Fin a)) (Fin a))) (Fin a)
               = Fin (v * ((x - a) / a) * a)"
    by (simp add: m isFin_fin)
  also have "v * ((x - a) / a) * a = (x - a) * v" using a by simp
  finally show "jmul (jmul (Fin v) (jdiv (jsub (Fin x) (Fin a)) (Fin a))) (Fin a)
                  = Fin ((x - a) * v)" .
qed

text \<open>
  Claim C9. \<^verbatim>\<open>closePosition\<close> of an open pair leaves no position for the pair in the
  open set and appends one entry to the closed history: the position with exitPrice,
  exitTime, exitReason set and status closed, whose profitPct and currentProfit come from
  the exit price and the entry price and volume of the position itself, whatever its pyramid
  levels are: the fraction \<open>(price - entryPrice) / entryPrice\<close> times 100, and the volume
  times that fraction times the entry price. For a finite non-zero entry price \<open>a\<close>, finite
  volume \<open>v\<close> and finite exit price \<open>x\<close>, when both results are finite, they are
  \<open>(x - a) / a * 100\<close> and \<open>(x - a) * v\<close>. The entry occurs in the history once more than an
  equal record did before, so exactly once when no equal record was there.
\<close>

theorem closePosition_moves_to_history:
  assumes "map_of (positions T) pr = Some p"
  shows "map_of (positions (closePosition e T pr price reason)) pr = None \<and>
         closedPositions (closePosition e T pr price reason)
           = closedPositions T @ [closedPosition e p price reason] \<and>
         count_list (closedPositions (closePosition e T pr price reason))
             (closedPosition e p price reason)
           = Suc (count_list (closedPositions T) (closedPosition e p price reason)) \<and>
         status (closedPosition e p price reason) = Closed \<and>
         exitPrice (closedPosition e p price reason) = Some price \<and>
         exitTime (closedPosition e p price reason) = Some (now e) \<and>
         exitReason (closedPosition e p price reason) = Some reason \<and>
         profitPct (closedPosition e (p\<lparr>pyramidLevels := ls, totalVolume := tv,
                                         pyramidLevelsActivated := n\<rparr>) price reason)
           = profitPct (closedPosition e p price reason) \<and>
         currentProfit (closedPosition e (p\<lparr>pyramidLevels := ls, totalVolume := tv,
                                              pyramidLevelsActivated := n\<rparr>) price reason)
           = currentProfit (closedPosition e p price reason) \<and>
         profitPct (closedPosition e p price reason)
           = jmul (jdiv (jsub price (entryPrice p)) (entryPrice p)) (Fin 100) \<and>
         currentProfit (closedPosition e p price reason)
           = jmul (jmul (volume p) (jdiv (jsub price (entryPrice p)) (entryPrice p)))
               (entryPrice p) \<and>
         (entryPrice p = Fin a \<and> a \<noteq> 0 \<and> volume p = Fin v \<and> price = Fin x \<and>
          isFin (profitPct (closedPosition e p price reason)) \<and>
          isFin (currentProfit (closedPosition e p price reason)) \<longrightarrow>
            closedPosition e p price reason =
              p\<lparr>exitPrice := Some price, exitTime := Some (now e), exitReason := Some reason,
                status := Closed, profitPct := Fin ((x - a) / a * 100),
                currentProfit := Fin ((x - a) * v)\<rparr>)"
proof -
  have 1: "map_of (positions (closePosition e T pr price reason)) pr = None \<and>
         closedPositions (closePosition e T pr price reason)
           = closedPositions T @ [closedPosition e p price reason] \<and>
         count_list (closedPositions (closePosition e T pr price reason))
             (closedPosition e p price reason)
           = Suc (count_list (closedPositions T) (closedPosition e p price reason))"
    using assms by (simp add: closePosition_def Let_def delete_conv')
  have 2: "status (closedPosition e p price reason) = Closed \<and>
         exitPrice (closedPosition e p price reason) = Some price \<and>
         exitTime (closedPosition e p price reason) = Some (now e) \<and>
         exitReason (closedPosition e p price reason) = Some reason \<and>
         profitPct (closedPosition e (p\<lparr>pyramidLevels := ls, totalVolume := tv,
                                         pyramidLevelsActivated := n\<rparr>) price reason)
           = profitPct (closedPosition e p price reason) \<and>
         currentProfit (closedPosition e (p\<lparr>pyramidLevels := ls, totalVolume := tv,
                                              pyramidLevelsActivated := n\<rparr>) price reason)
           = currentProfit (closedPosition e p price reason) \<and>
         profitPct (closedPosition e p price reason)
           = jmul (jdiv (jsub price (entryPrice p)) (entryPrice p)) (Fin 100) \<and>
         currentProfit (closedPosition e p price reason)
           = jmul (jmul (volume p) (jdiv (jsub price (entryPrice p)) (entryPrice p)))
               (entryPrice p)"
    by (simp add: closedPosition_def Let_def)
  have 3: "closedPosition e p price reason =
              p\<lparr>exitPrice := Some price, exitTime := Some (now e), exitReason := Some reason,
                status := Closed, profitPct := Fin ((x - a) / a * 100),
                currentProfit := Fin ((x - a) * v)\<rparr>"
    if h: "entryPrice p = Fin a" "a \<noteq> 0" "volume p = Fin v" "price = Fin x"
      "isFin (profitPct (closedPosition e p price reason))"
      "isFin (currentProfit (closedPosition e p price reason))"
  proof -
    from h(5) have pct: "isFin (jmul (jdiv (jsub (Fin x) (Fin a)) (Fin a)) (Fin 100))"
      by (simp add: closedPosition_def Let_def h(1,3,4))
    from h(6) have cur: "isFin (jmul (jmul (Fin v) (jdiv (jsub (Fin x) (Fin a)) (Fin a))) (Fin a))"
      by (simp add: closedPosition_def Let_def h(1,3,4))
    from close_formulas [OF h(2) pct cur] show ?thesis
      by (simp add: closedPosition_def Let_def h(1,3,4))
  qed
  from 1 2 3 show ?thesis by blast
qed

text \<open>
  Claim C9 on the first scenario with a level 1 added at 3135: closed at 3150, the profit
  is 150 on the entry at 3000 with volume 1, and the level does not enter it.
\<close>

theorem closePosition_moves_to_history_witness:
  "map_of (positions (snd (addPyramidLevel (scenarioEnv 1) ethOpened ''ETH/USD'' L1 (Fin 3135)
                             (Fin 0.35) (Fin 90)))) ''ETH/USD''
     = Some (ethPosition\<lparr>pyramidLevels :=
                [\<lparr>level = L1, lEntryPrice = Fin 3135, lVolume = Fin 0.35, lEntryTime = Fin 1,
                  triggerProfitPct = Fin 0.045, aiConfidence = Fin 90, lStatus = Active\<rparr>],
              totalVolume := Fin 1.35, pyramidLevelsActivated := 1\<rparr>) \<and>
   entryPrice ethPosition = Fin 3000 \<and> (3000 :: real) \<noteq> 0 \<and> volume ethPosition = Fin 1 \<and>
   map_of (positions (closePosition (scenarioEnv 2)
       (snd (addPyramidLevel (scenarioEnv 1) ethOpened ''ETH/USD'' L1 (Fin 3135) (Fin 0.35) (Fin 90)))
       ''ETH/USD'' (Fin 3150) ''Profit Target'')) ''ETH/USD'' = None \<and>
   map (\<lambda>q. (pair q, status q, profitPct q, currentProfit q))
     (closedPositions (closePosition (scenarioEnv 2)
       (snd (addPyramidLevel (scenarioEnv 1) ethOpened ''ETH/USD'' L1 (Fin 3135) (Fin 0.35) (Fin 90)))
       ''ETH/USD'' (Fin 3150) ''Profit Target''))
     = [(''ETH/USD'', Closed, Fin 5, Fin 150)]"
proof -
  let ?lv = "\<lparr>level = L1, lEntryPrice = Fin 3135, lVolume = Fin 0.35, lEntryTime = Fin 1,
                  triggerProfitPct = Fin 0.045, aiConfidence = Fin 90, lStatus = Active\<rparr>"
  let ?p = "ethPosition\<lparr>pyramidLevels := [?lv], totalVolume := Fin 1.35,
              pyramidLevelsActivated := 1\<rparr>"
  let ?T = "snd (addPyramidLevel (scenarioEnv 1) ethOpened ''ETH/USD'' L1 (Fin 3135) (Fin 0.35)
                   (Fin 90))"
  have h1: "map_of (positions ?T) ''ETH/USD'' = Some ?p"
    by (simp add: addPyramidLevel_def ethOpened_position Let_def update_conv')
       (simp add: ethPosition_def scenarioEnv_def fin_small)
  have h2: "entryPrice ?p = Fin 3000" "volume ?p = Fin 1" "(3000 :: real) \<noteq> 0"
    and h3: "entryPrice ethPosition = Fin 3000" "volume ethPosition = Fin 1"
    and h4: "closedPositions ?T = []" and h5: "pair ?p = ''ETH/USD''"
    by (simp_all add: ethPosition_def addPyramidLevel_def ethOpened_position Let_def)
       (simp_all add: scenario_defs Let_def)
  have h6: "isFin (profitPct (closedPosition (scenarioEnv 2) ?p (Fin 3150) ''Profit Target''))"
    "isFin (currentProfit (closedPosition (scenarioEnv 2) ?p (Fin 3150) ''Profit Target''))"
    by (simp_all add: closedPosition_def Let_def h3 jsub_Fin fin_small)
  note t = closePosition_moves_to_history [OF h1, where e = "scenarioEnv 2"
      and price = "Fin 3150" and reason = "''Profit Target''" and a = 3000 and v = 1
      and x = 3150]
  from t have m: "map_of (positions (closePosition (scenarioEnv 2) ?T ''ETH/USD'' (Fin 3150)
                  ''Profit Target'')) ''ETH/USD'' = None"
    and cl: "closedPositions (closePosition (scenarioEnv 2) ?T ''ETH/USD'' (Fin 3150)
                  ''Profit Target'')
             = closedPositions ?T @ [closedPosition (scenarioEnv 2) ?p (Fin 3150) ''Profit Target'']"
    by blast+
  from t h2 h6 have eq: "closedPosition (scenarioEnv 2) ?p (Fin 3150) ''Profit Target'' =
              ?p\<lparr>exitPrice := Some (Fin 3150), exitTime := Some (now (scenarioEnv 2)),
                exitReason := Some ''Profit Target'', status := Closed,
                profitPct := Fin ((3150 - 3000) / 3000 * 100),
                currentProfit := Fin ((3150 - 3000) * 1)\<rparr>"
    by blast
  have "map (\<lambda>q. (pair q, status q, profitPct q, currentProfit q))
           (closedPositions (closePosition (scenarioEnv 2) ?T ''ETH/USD'' (Fin 3150)
              ''Profit Target''))
         = [(''ETH/USD'', Closed, Fin 5, Fin 150)]"
    unfolding cl h4 eq using h5 by simp
  with m h1 h3 show ?thesis by simp
qed

section \<open>Performance statistics\<close>

lemma statsStep_counts:
  "accWinning (statsStep a p) = (if isWin p then Suc (accWinning a) else accWinning a)"
  "accLosing (statsStep a p) = (if isWin p then accLosing a else Suc (accLosing a))"
  "accProfit (statsStep a p) =
     (if isWin p then jadd (accProfit a) (orZero (currentProfit p)) else accProfit a)"
  "accLoss (statsStep a p) =
     (if isWin p then accLoss a else jadd (accLoss a) (jabs (orZero (currentProfit p))))"
  by (simp_all add: statsStep_def isWin_def Let_def)

lemma foldl_statsStep_winning:
  "accWinning (foldl statsStep a ps) = accWinning a + length (filter isWin ps)"
  by (induction ps arbitrary: a) (simp_all add: statsStep_counts)

lemma foldl_statsStep_losing:
  "accLosing (foldl statsStep a ps) = accLosing a + length (filter (\<lambda>p. \<not> isWin p) ps)"
  by (induction ps arbitrary: a) (simp_all add: statsStep_counts)

lemma normal_fin: "normal (fin r)"
  by (cases r rule: fin_cases) simp_all

lemma normal_jadd: "normal (jadd x y)"
  by (cases x; cases y) (simp_all add: normal_fin)

lemma jadd_zero: "normal x \<Longrightarrow> jadd x (Fin 0) = x"
  by (cases x) (simp_all add: fin_in_range)

lemma statsStep_loss_normal: "normal (accLoss a) \<Longrightarrow> normal (accLoss (statsStep a p))"
  by (simp add: statsStep_counts normal_jadd)

lemma foldl_statsStep_loss_normal:
  "normal (accLoss a) \<Longrightarrow> normal (accLoss (foldl statsStep a ps))"
  by (induction ps arbitrary: a) (simp_all add: statsStep_loss_normal)

lemma statsStep_zero_profit:
  assumes "currentProfit z = Fin 0"
  shows "accProfit (statsStep a z) = accProfit a"
    and "normal (accLoss a) \<Longrightarrow> accLoss (statsStep a z) = accLoss a"
  using assms by (simp_all add: statsStep_counts isWin_def orZero_def jadd_zero)

lemma foldl_statsStep_profit_cong:
  "accProfit a = accProfit b \<Longrightarrow>
   accProfit (foldl statsStep a ps) = accProfit (foldl statsStep b ps)"
  by (induction ps arbitrary: a b) (simp_all add: statsStep_counts)

lemma foldl_statsStep_loss_cong:
  "accLoss a = accLoss b \<Longrightarrow>
   accLoss (foldl statsStep a ps) = accLoss (foldl statsStep b ps)"
  by (induction ps arbitrary: a b) (simp_all add: statsStep_counts)

lemma stats_fields:
  "winningTrades (getPerformanceStats T) = accWinning (foldl statsStep statsInit (closedPositions T))"
  "losingTrades (getPerformanceStats T) = accLosing (foldl statsStep statsInit (closedPositions T))"
  "totalProfit (getPerformanceStats T) = accProfit (foldl statsStep statsInit (closedPositions T))"
  "totalLoss (getPerformanceStats T) = accLoss (foldl statsStep statsInit (closedPositions T))"
  "totalTrades (getPerformanceStats T) = length (closedPositions T)"
  by (simp_all add: getPerformanceStats_def Let_def statsInit_def)

text \<open>
  Claim C10. A closed position \<open>z\<close> with a recorded profit of exactly 0, anywhere in the
  closed history, is counted by \<^verbatim>\<open>getPerformanceStats\<close> as a losing trade: against the
  history without it, losingTrades is one more, and winningTrades, totalLoss and totalProfit
  are the same. winningTrades is the number of closed positions with a profit strictly
  above 0, and winRate is that number over the number of trades, times 100.
\<close>

theorem zero_profit_counts_as_loss:
  assumes "currentProfit z = Fin 0"
  shows "losingTrades (getPerformanceStats (T\<lparr>closedPositions := xs @ z # ys\<rparr>))
           = Suc (losingTrades (getPerformanceStats (T\<lparr>closedPositions := xs @ ys\<rparr>))) \<and>
         winningTrades (getPerformanceStats (T\<lparr>closedPositions := xs @ z # ys\<rparr>))
           = winningTrades (getPerformanceStats (T\<lparr>closedPositions := xs @ ys\<rparr>)) \<and>
         totalLoss (getPerformanceStats (T\<lparr>closedPositions := xs @ z # ys\<rparr>))
           = totalLoss (getPerformanceStats (T\<lparr>closedPositions := xs @ ys\<rparr>)) \<and>
         totalProfit (getPerformanceStats (T\<lparr>closedPositions := xs @ z # ys\<rparr>))
           = totalProfit (getPerformanceStats (T\<lparr>closedPositions := xs @ ys\<rparr>)) \<and>
         winningTrades (getPerformanceStats (T\<lparr>closedPositions := xs @ z # ys\<rparr>))
           = length (filter (\<lambda>p. jgt (orZero (currentProfit p)) (Fin 0)) (xs @ z # ys)) \<and>
         winRate (getPerformanceStats (T\<lparr>closedPositions := xs @ z # ys\<rparr>))
           = jmul (jdiv (Fin (real (length (filter (\<lambda>p. jgt (orZero (currentProfit p)) (Fin 0))
                                               (xs @ z # ys)))))
                        (Fin (real (length (xs @ z # ys))))) (Fin 100)"
proof -
  have nw: "\<not> isWin z"
    using assms by (simp add: isWin_def orZero_def)
  have w: "isWin = (\<lambda>p. jgt (orZero (currentProfit p)) (Fin 0))"
    by (simp add: isWin_def fun_eq_iff)
  have nl: "normal (accLoss (foldl statsStep statsInit xs))"
    by (rule foldl_statsStep_loss_normal) (simp add: statsInit_def overflowAt_pos)
  have 1: "losingTrades (getPerformanceStats (T\<lparr>closedPositions := xs @ z # ys\<rparr>))
           = Suc (losingTrades (getPerformanceStats (T\<lparr>closedPositions := xs @ ys\<rparr>)))"
    using nw by (simp add: stats_fields foldl_statsStep_losing statsStep_counts)
  have 2: "winningTrades (getPerformanceStats (T\<lparr>closedPositions := xs @ z # ys\<rparr>))
           = winningTrades (getPerformanceStats (T\<lparr>closedPositions := xs @ ys\<rparr>))"
    using nw by (simp add: stats_fields foldl_statsStep_winning statsStep_counts)
  have 3: "totalLoss (getPerformanceStats (T\<lparr>closedPositions := xs @ z # ys\<rparr>))
           = totalLoss (getPerformanceStats (T\<lparr>closedPositions := xs @ ys\<rparr>))"
    using foldl_statsStep_loss_cong [OF statsStep_zero_profit(2) [OF assms nl], of ys]
    by (simp add: stats_fields)
  have 4: "totalProfit (getPerformanceStats (T\<lparr>closedPositions := xs @ z # ys\<rparr>))
           = totalProfit (getPerformanceStats (T\<lparr>closedPositions := xs @ ys\<rparr>))"
    using foldl_statsStep_profit_cong [OF statsStep_zero_profit(1) [OF assms],
        of "foldl statsStep statsInit xs" ys]
    by (simp add: stats_fields)
  have 5: "winningTrades (getPerformanceStats (T\<lparr>closedPositions := xs @ z # ys\<rparr>))
           = length (filter (\<lambda>p. jgt (orZero (currentProfit p)) (Fin 0)) (xs @ z # ys))"
  proof -
    have "winningTrades (getPerformanceStats (T\<lparr>closedPositions := xs @ z # ys\<rparr>))
           = length (filter isWin (xs @ z # ys))"
      by (simp add: stats_fields foldl_statsStep_winning statsInit_def statsStep_counts)
    then show ?thesis by (simp only: w)
  qed
  have 6: "winRate (getPerformanceStats (T\<lparr>closedPositions := xs @ z # ys\<rparr>))
           = jmul (jdiv (Fin (real (length (filter (\<lambda>p. jgt (orZero (currentProfit p)) (Fin 0))
                                               (xs @ z # ys)))))
                        (Fin (real (length (xs @ z # ys))))) (Fin 100)"
    using 5 by (simp add: getPerformanceStats_def Let_def)
  from 1 2 3 4 5 6 show ?thesis by blast
qed

text \<open>
  Claim C10 on a history of two trades: the first scenario closed at 3150 (a profit of 150)
  and closed at 3000 (a profit of 0). One win, one loss, a total loss of 0 and a win rate
  of 50.
\<close>

theorem zero_profit_counts_as_loss_witness:
  "currentProfit (closedPosition (scenarioEnv 2) ethPosition (Fin 3000) ''Time Stop'') = Fin 0 \<and>
   (\<lambda>s. (totalTrades s, winningTrades s, losingTrades s, totalLoss s, totalProfit s, winRate s))
     (getPerformanceStats
        (ethOpened\<lparr>closedPositions :=
           [closedPosition (scenarioEnv 1) ethPosition (Fin 3150) ''Profit Target''] @
           closedPosition (scenarioEnv 2) ethPosition (Fin 3000) ''Time Stop'' # []\<rparr>))
     = (2, 1, 1, Fin 0, Fin 150, Fin 50)"
proof -
  let ?w = "closedPosition (scenarioEnv 1) ethPosition (Fin 3150) ''Profit Target''"
  let ?z = "closedPosition (scenarioEnv 2) ethPosition (Fin 3000) ''Time Stop''"
  have h1: "currentProfit ?z = Fin 0"
    by (simp add: closedPosition_def ethPosition_def Let_def jsub_Fin fin_small)
  have w: "currentProfit ?w = Fin 150"
    by (simp add: closedPosition_def ethPosition_def Let_def jsub_Fin fin_small)
  have base: "(\<lambda>s. (winningTrades s, losingTrades s, totalLoss s, totalProfit s))
                (getPerformanceStats (ethOpened\<lparr>closedPositions := [?w] @ []\<rparr>))
              = (1, 0, Fin 0, Fin 150)"
    by (simp add: getPerformanceStats_def statsInit_def statsStep_def orZero_def w Let_def
        jsub_Fin fin_small)
  note t = zero_profit_counts_as_loss [OF h1, where T = ethOpened and xs = "[?w]" and ys = "[]"]
  have n: "totalTrades (getPerformanceStats (ethOpened\<lparr>closedPositions := [?w] @ ?z # []\<rparr>)) = 2"
    by (simp add: stats_fields)
  have f: "filter (\<lambda>p. jgt (orZero (currentProfit p)) (Fin 0)) ([?w] @ ?z # []) = [?w]"
    by (simp add: h1 w orZero_def)
  from t base n f h1 show ?thesis
    by (simp add: fin_small)
qed

section \<open>The relative strength index\<close>















section \<open>Indicators on short windows\<close>

text \<open>
  What each indicator returns on a list shorter than its window: the default of the source
  for RSI, MACD, ADX and momentum; the mean of what is there, which is not NaN, for EMA and
  for SMA on a list of finite values that is not empty; a volume ratio that is not NaN; the
  snapshot of defaults for no candles at all.
\<close>

lemma jadd_finite_not_NaN: "a \<noteq> NaN \<Longrightarrow> jadd a (Fin b) \<noteq> NaN"
  by (cases a) simp_all

lemma foldl_jadd_not_NaN:
  "a \<noteq> NaN \<Longrightarrow> list_all isFin xs \<Longrightarrow> foldl jadd a xs \<noteq> NaN"
proof (induction xs arbitrary: a)
  case Nil
  then show ?case by simp
next
  case (Cons x xs)
  then obtain b where "x = Fin b" by (auto simp: isFin_conv)
  with Cons show ?case by (simp add: jadd_finite_not_NaN)
qed

lemma jdiv_positive_not_NaN: "x \<noteq> NaN \<Longrightarrow> 0 < n \<Longrightarrow> jdiv x (Fin n) \<noteq> NaN"
  by (cases x) simp_all

lemma reduceAdd_not_NaN:
  assumes "xs \<noteq> []" and "list_all isFin xs"
  shows "\<exists>v. reduceAdd xs = Inr v \<and> v \<noteq> NaN"
proof -
  from assms obtain a rest where xs: "xs = Fin a # rest" and rest: "list_all isFin rest"
    by (cases xs) (auto simp: isFin_conv)
  from foldl_jadd_not_NaN [OF _ rest, of "Fin a"] show ?thesis
    by (simp add: reduceAdd_def xs)
qed

lemma calculateRSI_short:
  "length closes < period + 1 \<Longrightarrow> calculateRSI closes period = Fin 50"
  by (simp add: calculateRSI_def)

lemma calculateMACD_short:
  "int (length closes) < int slow + int signalPeriod - 1 \<Longrightarrow>
   calculateMACD closes fast slow signalPeriod
     = Inr \<lparr>line = Fin 0, signal = Fin 0, histogram = Fin 0\<rparr>"
  by (simp add: calculateMACD_def)

lemma calculateADX_short:
  "length highs < period * 2 + 1 \<Longrightarrow> calculateADX highs lows closes period = Fin 20"
  by (simp add: calculateADX_def)

lemma calculateEMA_empty: "calculateEMA [] period = Inr (Fin 0)"
  by (simp add: calculateEMA_def)

lemma calculateEMA_short:
  assumes "closes \<noteq> []" and "length closes \<le> period" and "list_all isFin closes"
  shows "\<exists>v. calculateEMA closes period = Inr v \<and> v \<noteq> NaN"
proof -
  from reduceAdd_not_NaN [OF assms(1,3)] obtain s where s: "reduceAdd closes = Inr s" "s \<noteq> NaN"
    by blast
  from assms(1) have "0 < real (length closes)" by simp
  from jdiv_positive_not_NaN [OF s(2) this] assms(1,2) show ?thesis
    by (simp add: calculateEMA_def s(1))
qed

lemma calculateSMA_short:
  assumes "vals \<noteq> []" and "length vals < period" and "list_all isFin vals"
  shows "\<exists>v. calculateSMA vals period = Inr v \<and> v \<noteq> NaN"
proof -
  from foldl_jadd_not_NaN [OF _ assms(3), of "Fin 0"] have s: "foldl jadd (Fin 0) vals \<noteq> NaN"
    by simp
  from assms(1) have "0 < real (length vals)" by simp
  from jdiv_positive_not_NaN [OF s this] assms(2) show ?thesis
    by (simp add: calculateSMA_def jsum_def)
qed

lemma calculateVolumeRatio_empty: "calculateVolumeRatio [] period = Inr (Fin 1)"
  by (simp add: calculateVolumeRatio_def)

lemma ratio_not_NaN: "(if jgt avg (Fin 0) then jdiv (Fin c) avg else Fin 1) \<noteq> NaN"
  by (cases avg) (simp_all add: jgt_def)

lemma calculateVolumeRatio_not_NaN:
  assumes "list_all isFin volumes"
  shows "\<exists>v. calculateVolumeRatio volumes period = Inr v \<and> v \<noteq> NaN"
proof (cases "volumes = []")
  case True
  then show ?thesis by (simp add: calculateVolumeRatio_empty)
next
  case False
  let ?m = "min period (length volumes)"
  have ne: "sliceLast ?m volumes \<noteq> []"
    using False by (auto simp: sliceLast_def min_def)
  have "list_all isFin (sliceLast ?m volumes)"
    using assms by (auto simp: sliceLast_def list_all_iff dest: in_set_dropD)
  from reduceAdd_not_NaN [OF ne this] obtain s where s: "reduceAdd (sliceLast ?m volumes) = Inr s"
    by blast
  from False have "length volumes - 1 < length volumes" by (cases volumes) simp_all
  with assms obtain c where c: "elemAt volumes (length volumes - 1) = Fin c"
    by (auto simp: elemAt_def list_all_length isFin_conv)
  obtain avg where avg: "calculateSMA volumes ?m = Inr avg"
    by (simp add: calculateSMA_def s Let_def)
  from False c ratio_not_NaN [of avg c] show ?thesis
    by (simp add: calculateVolumeRatio_def Let_def avg)
qed

lemma calculateMomentum_short:
  "length closes < period + 1 \<Longrightarrow> calculateMomentum closes period = Fin 0"
  by (simp add: calculateMomentum_def)

lemma calculateAllIndicators_empty:
  "calculateAllIndicators []
     = Inr \<lparr>rsi = Fin 50, macd = \<lparr>line = Fin 0, signal = Fin 0, histogram = Fin 0\<rparr>,
            adxNow = Fin 20, volumeRatio = Fin 1, momentum1h = Fin 0, momentum4h = Fin 0,
            recentHigh = Fin 0, recentLow = Fin 0, ema200 = Fin 0\<rparr>"
  by (simp add: calculateAllIndicators_def)

text \<open>
  Claim C7 at the input where the code departs from it: on the empty list, which is shorter
  than every positive period, \<^verbatim>\<open>calculateSMA\<close> divides the sum 0 by the length 0 and
  returns NaN. The lemmas above are the claim for the other indicators.
\<close>

theorem calculateSMA_empty_is_NaN: "calculateSMA [] (Suc n) = Inr NaN"
  by (simp add: calculateSMA_def jsum_def)

end
